theory Spec2Isabelle
  imports Complex_Main
begin

section \<open>JSON values of the JavaScript runtime\<close>

text \<open>
  The streaming service is JavaScript: every value that crosses the cache, the bus or the
  viewer transport is a JSON value. A number is the real value of the double that the
  runtime holds. \<open>null\<close> is \<open>JNull\<close>; \<open>undefined\<close> (a missing property)
  is \<open>None\<close> of \<open>json option\<close>.
\<close>

datatype json =
    JNull
  | JBool bool
  | JNum real
  | JStr string
  | JArr "json list"
  | JObj "(string \<times> json) list"

text \<open>JavaScript truthiness (the test of \<open>if (v)\<close>, \<open>a && b\<close>, \<open>v ? x : y\<close>).\<close>

fun truthy :: "json \<Rightarrow> bool" where
  "truthy JNull = False"
| "truthy (JBool b) = b"
| "truthy (JNum x) = (x \<noteq> 0)"
| "truthy (JStr s) = (s \<noteq> [])"
| "truthy (JArr xs) = True"
| "truthy (JObj kvs) = True"

fun truthy_opt :: "json option \<Rightarrow> bool" where
  "truthy_opt None = False"
| "truthy_opt (Some v) = truthy v"

text \<open>
  Property access \<open>v.k\<close> for a property name that no prototype defines (\<open>technical\<close>,
  \<open>sentiment\<close>, \<open>lastUpdated\<close>): an object yields its own property, every other
  non-null value yields \<open>undefined\<close>. (On \<open>null\<close> the access would throw; every access
  in the code is guarded by a truthiness test of the value.)
\<close>

fun jprop :: "json \<Rightarrow> string \<Rightarrow> json option" where
  "jprop (JObj kvs) k = map_of kvs k"
| "jprop v k = None"

section \<open>The viewer transport and the connection registry (WebSocketService)\<close>

text \<open>
  The payload of an inbound \<open>subscribe\<close> / \<open>unsubscribe\<close> message is any JSON value.
  The interface declares it as a list of strings, so an array payload carries strings
  (\<open>PArr\<close>); every other constructor is a payload for which \<open>Array.isArray\<close> is false.
\<close>

datatype payload =
    PArr "string list"
  | PNull
  | PBool bool
  | PNum real
  | PStr string
  | PObj "(string \<times> json) list"

fun isArray :: "payload \<Rightarrow> bool" where
  "isArray (PArr xs) = True"
| "isArray p = False"

text \<open>The outbound events of the transport, with their payload fields.\<close>

datatype event =
    ConnectionEstablished string string "string list"
  | SubscriptionConfirmed "string list" string
  | UnsubscriptionConfirmed "string list" string
  | MarketData string json "string option"
  | TechnicalUpdate string json string
  | SentimentUpdate string json string

fun is_market_data :: "event \<Rightarrow> bool" where
  "is_market_data (MarketData s d t) = True"
| "is_market_data e = False"

text \<open>The wall clock as one operation reads it: \<open>Date.now()\<close>,
  \<open>new Date().toISOString()\<close>, \<open>getHours()\<close> and \<open>getMinutes()\<close>.\<close>

record clock =
  now_ms :: int
  now_iso :: string
  hours :: nat
  minutes :: nat

text \<open>\<open>clientInfo\<close> of \<open>handleConnection\<close>; its \<open>subscriptions\<close> Set is the connection's
  interest set.\<close>

record clientInfo =
  client_id :: string
  connectedAt :: string
  clientSubscriptions :: "string set"
  lastActivity :: int

text \<open>
  The state the handlers mutate: the two registries of \<open>WebSocketService\<close>
  (\<open>connectedClients\<close>, a Map from socket id to \<open>clientInfo\<close>, and \<open>subscriptions\<close>, a Map
  from symbol to a Set of socket ids), and the state of the socket.io server they share
  with the handlers of the entry point: the members of every room, and for every socket
  the events delivered to it so far, oldest first. What the handlers write to the logger
  is not part of the state.
\<close>

record ws_state =
  connectedClients :: "string \<rightharpoonup> clientInfo"
  subscriptions :: "string \<rightharpoonup> string set"
  rooms :: "string \<Rightarrow> string set"
  inbox :: "string \<Rightarrow> event list"

definition empty_registry :: ws_state where
  "empty_registry =
     \<lparr>connectedClients = Map.empty, subscriptions = Map.empty,
      rooms = (\<lambda>r. {}), inbox = (\<lambda>c. [])\<rparr>"

text \<open>The room of a symbol: the template string \<open>market-${symbol}\<close>.\<close>

definition room :: "string \<Rightarrow> string" where
  "room symbol = ''market-'' @ symbol"

text \<open>socket.io: \<open>socket.join\<close>, \<open>socket.leave\<close>, \<open>socket.emit\<close> and \<open>io.to(room).emit\<close>
  (one delivery to every socket that is in the room when the event is emitted).\<close>

definition socket_join :: "string \<Rightarrow> string \<Rightarrow> ws_state \<Rightarrow> ws_state" where
  "socket_join sock r s = s\<lparr>rooms := (rooms s)(r := insert sock (rooms s r))\<rparr>"

definition socket_leave :: "string \<Rightarrow> string \<Rightarrow> ws_state \<Rightarrow> ws_state" where
  "socket_leave sock r s = s\<lparr>rooms := (rooms s)(r := rooms s r - {sock})\<rparr>"

definition socket_emit :: "string \<Rightarrow> event \<Rightarrow> ws_state \<Rightarrow> ws_state" where
  "socket_emit sock ev s = s\<lparr>inbox := (inbox s)(sock := inbox s sock @ [ev])\<rparr>"

definition io_to_emit :: "string \<Rightarrow> event \<Rightarrow> ws_state \<Rightarrow> ws_state" where
  "io_to_emit r ev s =
     s\<lparr>inbox := (\<lambda>c. if c \<in> rooms s r then inbox s c @ [ev] else inbox s c)\<rparr>"

subsection \<open>Connection management\<close>

definition availableChannels :: "string list" where
  "availableChannels =
     [''market-data'', ''technical-update'', ''sentiment-update'',
      ''trading-recommendation'', ''market-alert'']"

definition handleConnection :: "clock \<Rightarrow> string \<Rightarrow> ws_state \<Rightarrow> ws_state" where
  "handleConnection clk sock s =
     socket_emit sock (ConnectionEstablished sock (now_iso clk) availableChannels)
       (s\<lparr>connectedClients := (connectedClients s)(sock \<mapsto>
            \<lparr>client_id = sock, connectedAt = now_iso clk,
             clientSubscriptions = {}, lastActivity = now_ms clk\<rparr>)\<rparr>)"

text \<open>
  \<open>handleDisconnection\<close>: for a known client, the socket leaves the room of every symbol
  of its interest set, and the client is deleted from \<open>connectedClients\<close>. The
  \<open>subscriptions\<close> Map is not touched.
\<close>

definition handleDisconnection :: "string \<Rightarrow> ws_state \<Rightarrow> ws_state" where
  "handleDisconnection sock s =
     (case connectedClients s sock of
        None \<Rightarrow> s
      | Some clientInfo \<Rightarrow>
          s\<lparr>rooms := (\<lambda>r. if r \<in> room ` clientSubscriptions clientInfo
                           then rooms s r - {sock} else rooms s r),
            connectedClients := (connectedClients s)(sock := None)\<rparr>)"

text \<open>The body of the \<open>forEach\<close> of \<open>handleSubscription\<close>, for one symbol.\<close>

definition subscribe_symbol :: "string \<Rightarrow> string \<Rightarrow> ws_state \<Rightarrow> ws_state" where
  "subscribe_symbol sock symbol s =
     (let s1 = socket_join sock (room symbol) s;
          s2 = s1\<lparr>connectedClients :=
                 (case connectedClients s1 sock of
                    None \<Rightarrow> connectedClients s1
                  | Some clientInfo \<Rightarrow> (connectedClients s1)(sock \<mapsto>
                      clientInfo\<lparr>clientSubscriptions :=
                        insert symbol (clientSubscriptions clientInfo)\<rparr>))\<rparr>;
          s3 = (if subscriptions s2 symbol = None
                then s2\<lparr>subscriptions := (subscriptions s2)(symbol \<mapsto> {})\<rparr> else s2)
      in s3\<lparr>subscriptions := (subscriptions s3)(symbol \<mapsto>
              insert sock (case subscriptions s3 symbol of None \<Rightarrow> {} | Some ids \<Rightarrow> ids))\<rparr>)"

definition touch :: "clock \<Rightarrow> string \<Rightarrow> ws_state \<Rightarrow> ws_state" where
  "touch clk sock s =
     s\<lparr>connectedClients :=
         (case connectedClients s sock of
            None \<Rightarrow> connectedClients s
          | Some clientInfo \<Rightarrow>
              (connectedClients s)(sock \<mapsto> clientInfo\<lparr>lastActivity := now_ms clk\<rparr>))\<rparr>"

definition handleSubscription :: "clock \<Rightarrow> string \<Rightarrow> payload \<Rightarrow> ws_state \<Rightarrow> ws_state" where
  "handleSubscription clk sock symbols s =
     (case connectedClients s sock of
        None \<Rightarrow> s
      | Some clientInfo \<Rightarrow>
          (case symbols of
             PArr syms \<Rightarrow>
               socket_emit sock (SubscriptionConfirmed syms (now_iso clk))
                 (touch clk sock (fold (subscribe_symbol sock) syms s))
           | _ \<Rightarrow> s))"

text \<open>The body of the \<open>forEach\<close> of \<open>handleUnsubscription\<close>, for one symbol: an entry of
  the \<open>subscriptions\<close> Map that becomes empty is deleted.\<close>

definition unsubscribe_symbol :: "string \<Rightarrow> string \<Rightarrow> ws_state \<Rightarrow> ws_state" where
  "unsubscribe_symbol sock symbol s =
     (let s1 = socket_leave sock (room symbol) s;
          s2 = s1\<lparr>connectedClients :=
                 (case connectedClients s1 sock of
                    None \<Rightarrow> connectedClients s1
                  | Some clientInfo \<Rightarrow> (connectedClients s1)(sock \<mapsto>
                      clientInfo\<lparr>clientSubscriptions :=
                        clientSubscriptions clientInfo - {symbol}\<rparr>))\<rparr>
      in (case subscriptions s2 symbol of
            None \<Rightarrow> s2
          | Some ids \<Rightarrow>
              (if ids - {sock} = {}
               then s2\<lparr>subscriptions := (subscriptions s2)(symbol := None)\<rparr>
               else s2\<lparr>subscriptions := (subscriptions s2)(symbol \<mapsto> ids - {sock})\<rparr>)))"

definition handleUnsubscription :: "clock \<Rightarrow> string \<Rightarrow> payload \<Rightarrow> ws_state \<Rightarrow> ws_state" where
  "handleUnsubscription clk sock symbols s =
     (case connectedClients s sock of
        None \<Rightarrow> s
      | Some clientInfo \<Rightarrow>
          (case symbols of
             PArr syms \<Rightarrow>
               socket_emit sock (UnsubscriptionConfirmed syms (now_iso clk))
                 (touch clk sock (fold (unsubscribe_symbol sock) syms s))
           | _ \<Rightarrow> s))"

text \<open>The handlers the entry point registers on every socket for the inbound
  \<open>subscribe\<close> and \<open>unsubscribe\<close> messages: they only join and leave rooms.\<close>

definition on_subscribe :: "string \<Rightarrow> payload \<Rightarrow> ws_state \<Rightarrow> ws_state" where
  "on_subscribe sock symbols s =
     (case symbols of
        PArr syms \<Rightarrow> fold (\<lambda>symbol. socket_join sock (room symbol)) syms s
      | _ \<Rightarrow> s)"

definition on_unsubscribe :: "string \<Rightarrow> payload \<Rightarrow> ws_state \<Rightarrow> ws_state" where
  "on_unsubscribe sock symbols s =
     (case symbols of
        PArr syms \<Rightarrow> fold (\<lambda>symbol. socket_leave sock (room symbol)) syms s
      | _ \<Rightarrow> s)"

text \<open>The two sides of the registry, as the claims read them: the interest set of a
  connection (empty when the connection is not registered), and membership of a connection
  id in the subscriber index entry of a symbol.\<close>

definition interestSet :: "ws_state \<Rightarrow> string \<Rightarrow> string set" where
  "interestSet s c =
     (case connectedClients s c of None \<Rightarrow> {} | Some clientInfo \<Rightarrow> clientSubscriptions clientInfo)"

definition in_index :: "ws_state \<Rightarrow> string \<Rightarrow> string \<Rightarrow> bool" where
  "in_index s symbol c =
     (case subscriptions s symbol of None \<Rightarrow> False | Some ids \<Rightarrow> c \<in> ids)"

subsection \<open>Routing of bus notifications\<close>

text \<open>A message of the \<open>market_updates\<close> channel after \<open>JSON.parse\<close>:
  \<open>{type, symbol, data}\<close>; \<open>data\<close> is the aggregated record (\<open>JNull\<close> when absent).\<close>

record bus_message =
  msg_type :: string
  msg_symbol :: string
  msg_data :: json

definition handleMarketUpdate :: "clock \<Rightarrow> bus_message \<Rightarrow> ws_state \<Rightarrow> ws_state" where
  "handleMarketUpdate clk data s =
     (if msg_type data = ''market_data'' \<and> msg_symbol data \<noteq> [] \<and> truthy (msg_data data)
      then
        (let r = room (msg_symbol data);
             s1 = io_to_emit r
                    (MarketData (msg_symbol data) (msg_data data) (Some (now_iso clk))) s;
             s2 = (case jprop (msg_data data) ''technical'' of
                     Some technical \<Rightarrow>
                       if truthy technical
                       then io_to_emit r
                              (TechnicalUpdate (msg_symbol data) technical (now_iso clk)) s1
                       else s1
                   | None \<Rightarrow> s1)
         in (case jprop (msg_data data) ''sentiment'' of
               Some sentiment \<Rightarrow>
                 if truthy sentiment
                 then io_to_emit r
                        (SentimentUpdate (msg_symbol data) sentiment (now_iso clk)) s2
                 else s2
             | None \<Rightarrow> s2))
      else s)"

section \<open>The Cache Store (RedisService)\<close>

text \<open>
  The builtins of the JavaScript runtime that the services call and whose results the
  claims depend on: \<open>JSON.stringify\<close>, \<open>JSON.parse\<close> (\<open>None\<close>: it throws a SyntaxError),
  the conversion of a string or an array to a number (\<open>None\<close>: \<open>NaN\<close>), and \<open>to_double\<close>, the
  rounding of the exact value of a decimal literal or of the exact result of an
  arithmetic operation to the double that the runtime stores. They are parameters of the
  model.
\<close>

record runtime =
  stringify :: "json \<Rightarrow> string"
  parse :: "string \<Rightarrow> json option"
  coerce_number :: "json \<Rightarrow> real option"
  to_double :: "real \<Rightarrow> real"

text \<open>
  Modelled from the spec: the backing store behind \<open>this.client\<close> (the Redis server and its
  client library are not code of this repository). Per the Cache Store section, an entry
  has a value and an absolute expiry, a found-but-expired entry is not found (the store
  enforces this natively), and a published message goes to the channel's subscribers.
  \<open>reachable\<close> says whether a command issued to the client succeeds (otherwise the call
  rejects); \<open>commands\<close> counts the commands issued to the client. Times are milliseconds.
\<close>

record redis_state =
  isConnected :: bool
  reachable :: bool
  store :: "string \<rightharpoonup> string \<times> int option"
  published :: "(string \<times> string) list"
  channels :: "string set"
  commands :: nat

text \<open>Modelled from the spec: the commands of the client. The first component of a result
  is \<open>False\<close> (or \<open>None\<close>) when the call rejects.\<close>

definition issue :: "redis_state \<Rightarrow> redis_state" where
  "issue rs = rs\<lparr>commands := Suc (commands rs)\<rparr>"

definition client_setEx :: "int \<Rightarrow> string \<Rightarrow> int \<Rightarrow> string \<Rightarrow> redis_state \<Rightarrow> bool \<times> redis_state" where
  "client_setEx now key seconds v rs =
     (if reachable rs \<and> 0 < seconds
      then (True, issue (rs\<lparr>store := (store rs)(key \<mapsto> (v, Some (now + 1000 * seconds)))\<rparr>))
      else (False, issue rs))"

definition client_set :: "string \<Rightarrow> string \<Rightarrow> redis_state \<Rightarrow> bool \<times> redis_state" where
  "client_set key v rs =
     (if reachable rs
      then (True, issue (rs\<lparr>store := (store rs)(key \<mapsto> (v, None))\<rparr>))
      else (False, issue rs))"

definition live_value :: "int \<Rightarrow> redis_state \<Rightarrow> string \<Rightarrow> string option" where
  "live_value now rs key =
     (case store rs key of
        None \<Rightarrow> None
      | Some (v, None) \<Rightarrow> Some v
      | Some (v, Some expiresAt) \<Rightarrow> if now < expiresAt then Some v else None)"

definition client_get :: "int \<Rightarrow> string \<Rightarrow> redis_state \<Rightarrow> string option option \<times> redis_state" where
  "client_get now key rs =
     (if reachable rs then (Some (live_value now rs key), issue rs) else (None, issue rs))"

definition client_del :: "string \<Rightarrow> redis_state \<Rightarrow> bool \<times> redis_state" where
  "client_del key rs =
     (if reachable rs
      then (True, issue (rs\<lparr>store := (store rs)(key := None)\<rparr>))
      else (False, issue rs))"

definition client_publish :: "string \<Rightarrow> string \<Rightarrow> redis_state \<Rightarrow> bool \<times> redis_state" where
  "client_publish channel message rs =
     (if reachable rs
      then (True, issue (rs\<lparr>published := published rs @ [(channel, message)]\<rparr>))
      else (False, issue rs))"

definition client_subscribe :: "string \<Rightarrow> redis_state \<Rightarrow> bool \<times> redis_state" where
  "client_subscribe channel rs =
     (if reachable rs
      then (True, issue (rs\<lparr>channels := insert channel (channels rs)\<rparr>))
      else (False, issue rs))"

text \<open>
  The operations of \<open>RedisService\<close>. Each body is one \<open>try\<close>: it throws when \<open>isConnected\<close> is
  false, awaits one command of the client, and returns \<open>true\<close> (or the value); the \<open>catch\<close>
  logs and returns \<open>false\<close> (\<open>get\<close>: \<open>null\<close>). \<open>expireInSeconds\<close> is \<open>None\<close> for \<open>null\<close>.
\<close>

definition redis_set ::
  "runtime \<Rightarrow> int \<Rightarrow> string \<Rightarrow> json \<Rightarrow> int option \<Rightarrow> redis_state \<Rightarrow> bool \<times> redis_state" where
  "redis_set rt now key v expireInSeconds rs =
     (if \<not> isConnected rs then (False, rs)
      else
        (let serializedValue = stringify rt v in
         (case expireInSeconds of
            None \<Rightarrow> client_set key serializedValue rs
          | Some seconds \<Rightarrow>
              if seconds \<noteq> 0 then client_setEx now key seconds serializedValue rs
              else client_set key serializedValue rs)))"

definition redis_get :: "runtime \<Rightarrow> int \<Rightarrow> string \<Rightarrow> redis_state \<Rightarrow> json \<times> redis_state" where
  "redis_get rt now key rs =
     (if \<not> isConnected rs then (JNull, rs)
      else
        (case client_get now key rs of
           (None, rs') \<Rightarrow> (JNull, rs')
         | (Some None, rs') \<Rightarrow> (JNull, rs')
         | (Some (Some v), rs') \<Rightarrow>
             (if v \<noteq> []
              then (case parse rt v of None \<Rightarrow> JNull | Some parsed \<Rightarrow> parsed)
              else JNull, rs')))"

definition redis_del :: "string \<Rightarrow> redis_state \<Rightarrow> bool \<times> redis_state" where
  "redis_del key rs = (if \<not> isConnected rs then (False, rs) else client_del key rs)"

definition redis_publish :: "runtime \<Rightarrow> string \<Rightarrow> json \<Rightarrow> redis_state \<Rightarrow> bool \<times> redis_state" where
  "redis_publish rt channel message rs =
     (if \<not> isConnected rs then (False, rs)
      else client_publish channel (stringify rt message) rs)"

definition redis_subscribe :: "string \<Rightarrow> redis_state \<Rightarrow> bool \<times> redis_state" where
  "redis_subscribe channel rs =
     (if \<not> isConnected rs then (False, rs) else client_subscribe channel rs)"

section \<open>The Aggregator (MarketDataService)\<close>

text \<open>
  The outcome of the three upstream requests of one refresh: \<open>None\<close> when the \<open>axios.get\<close>
  rejects (timeout, network error, non-success status), \<open>Some d\<close> when it resolves with
  \<open>response.data = d\<close> (a missing body is \<open>JNull\<close> or the empty string).
\<close>

record upstream =
  market_response :: "json option"
  technical_response :: "json option"
  sentiment_response :: "json option"

text \<open>The five results of \<open>Math.random()\<close> that \<open>generateMockMarketData\<close> consumes, in
  the order of the calls; each lies in \<open>[0, 1)\<close>.\<close>

record random_draws =
  r_change :: real
  r_open :: real
  r_high :: real
  r_low :: real
  r_volume :: real

text \<open>
  Arithmetic on doubles: the exact result, rounded. Integer literals and \<open>0.5\<close> are doubles;
  \<open>0.8\<close> and \<open>0.4\<close> are not, and denote the doubles they round to.
\<close>

definition dadd :: "runtime \<Rightarrow> real \<Rightarrow> real \<Rightarrow> real" where
  "dadd rt a b = to_double rt (a + b)"

definition dsub :: "runtime \<Rightarrow> real \<Rightarrow> real \<Rightarrow> real" where
  "dsub rt a b = to_double rt (a - b)"

definition dmul :: "runtime \<Rightarrow> real \<Rightarrow> real \<Rightarrow> real" where
  "dmul rt a b = to_double rt (a * b)"

definition ddiv :: "runtime \<Rightarrow> real \<Rightarrow> real \<Rightarrow> real" where
  "ddiv rt a b = to_double rt (a / b)"

definition literal :: "runtime \<Rightarrow> real \<Rightarrow> real" where
  "literal rt x = to_double rt x"

text \<open>
  The facts about rounding to the nearest double (IEEE 754 binary64) that the bounds on
  the synthetic sample rest on: rounding is monotone; an integer of magnitude at most
  \<open>2\<^sup>5\<^sup>3\<close> and the two halves \<open>\<plusminus>0.5\<close> are doubles; away from underflow and overflow the
  relative error is at most \<open>2\<^sup>-\<^sup>5\<^sup>3\<close>; and the literal \<open>0.8\<close> rounds upwards.
\<close>

definition double_rounding :: "(real \<Rightarrow> real) \<Rightarrow> bool" where
  "double_rounding f =
     ((\<forall>x y. x \<le> y \<longrightarrow> f x \<le> f y)
      \<and> (\<forall>n::int. \<bar>n\<bar> \<le> 2 ^ 53 \<longrightarrow> f (of_int n) = of_int n)
      \<and> f (1 / 2) = 1 / 2 \<and> f (- (1 / 2)) = - (1 / 2)
      \<and> (\<forall>x. 1 / 10 ^ 30 \<le> \<bar>x\<bar> \<and> \<bar>x\<bar> \<le> 10 ^ 30 \<longrightarrow> \<bar>f x - x\<bar> \<le> \<bar>x\<bar> / 2 ^ 53)
      \<and> 8 / 10 \<le> f (8 / 10))"

text \<open>The price fields of a sample are \<open>None\<close> when they are \<open>NaN\<close>.\<close>

record MarketSample =
  symbol :: string
  timestamp :: string
  open_price :: "real option"
  high_price :: "real option"
  low_price :: "real option"
  close_price :: "real option"
  volume :: int
  change :: "real option"
  change_percent :: real
  is_market_open :: bool

definition isMarketOpen :: "clock \<Rightarrow> bool" where
  "isMarketOpen clk =
     (let currentTime = hours clk * 100 + minutes clk
      in 915 \<le> currentTime \<and> currentTime \<le> 1530)"

definition basePrices :: "string \<rightharpoonup> real" where
  "basePrices = map_of [(''NIFTY'', 21000), (''SENSEX'', 69000), (''BANKNIFTY'', 45000)]"

text \<open>The names that a property lookup on an object literal also finds, inherited from
  \<open>Object.prototype\<close>; each is a function or an object, so truthy and not a number.\<close>

definition objectPrototypeProperties :: "string list" where
  "objectPrototypeProperties =
     [''constructor'', ''__defineGetter__'', ''__defineSetter__'', ''hasOwnProperty'',
      ''__lookupGetter__'', ''__lookupSetter__'', ''isPrototypeOf'', ''propertyIsEnumerable'',
      ''toString'', ''valueOf'', ''__proto__'', ''toLocaleString'']"

text \<open>
  \<open>basePrices[symbol] || 20000\<close>, as the number the arithmetic then uses: the table entry
  of a listed symbol, \<open>20000\<close> for a name that the lookup does not find, and \<open>None\<close> (every
  product with it is \<open>NaN\<close>) for a name inherited from \<open>Object.prototype\<close>.
\<close>

definition basePriceOf :: "string \<Rightarrow> real option" where
  "basePriceOf symb =
     (case basePrices symb of
        Some p \<Rightarrow> if p \<noteq> 0 then Some p else Some 20000
      | None \<Rightarrow> if symb \<in> set objectPrototypeProperties then None else Some 20000)"

text \<open>\<open>Math.round(x * 100) / 100\<close>; \<open>Math.round\<close> is exact on a double and rounds a half
  towards \<open>+\<infinity>\<close>, as \<^const>\<open>round\<close> does.\<close>

definition round2 :: "runtime \<Rightarrow> real \<Rightarrow> real" where
  "round2 rt x = ddiv rt (of_int (round (dmul rt x 100))) 100"

definition generateMockMarketData ::
  "runtime \<Rightarrow> random_draws \<Rightarrow> clock \<Rightarrow> string \<Rightarrow> MarketSample" where
  "generateMockMarketData rt rnd clk symb =
     (let basePrice = basePriceOf symb;
          changePercent = dmul rt (dsub rt (r_change rnd) (literal rt 0.5)) 4;
          currentPrice =
            map_option (\<lambda>b. dmul rt b (dadd rt 1 (ddiv rt changePercent 100))) basePrice;
          open =
            map_option
              (\<lambda>b. dmul rt b
                 (dadd rt 1 (ddiv rt (dmul rt (dsub rt (r_open rnd) (literal rt 0.5)) 2) 100)))
              basePrice;
          high =
            (case (open, currentPrice) of
               (Some opn, Some cur) \<Rightarrow>
                 Some (dmul rt (max opn cur) (dadd rt 1 (ddiv rt (dmul rt (r_high rnd) 1) 100)))
             | _ \<Rightarrow> None);
          low =
            (case (open, currentPrice) of
               (Some opn, Some cur) \<Rightarrow>
                 Some (dmul rt (min opn cur) (dsub rt 1 (ddiv rt (dmul rt (r_low rnd) 1) 100)))
             | _ \<Rightarrow> None);
          baseVolume = (if symb = ''NIFTY'' then 1000000
                        else if symb = ''SENSEX'' then 800000 else 1200000);
          vol = \<lfloor>dmul rt baseVolume
                  (dadd rt (literal rt 0.8) (dmul rt (r_volume rnd) (literal rt 0.4)))\<rfloor>
      in \<lparr>symbol = symb,
          timestamp = now_iso clk,
          open_price = map_option (round2 rt) open,
          high_price = map_option (round2 rt) high,
          low_price = map_option (round2 rt) low,
          close_price = map_option (round2 rt) currentPrice,
          volume = vol,
          change =
            (case (currentPrice, basePrice) of
               (Some cur, Some b) \<Rightarrow> Some (round2 rt (dsub rt cur b))
             | _ \<Rightarrow> None),
          change_percent = round2 rt changePercent,
          is_market_open = isMarketOpen clk\<rparr>)"

text \<open>The sample as the JSON object that the object literal denotes; a \<open>NaN\<close> field is
  \<open>null\<close>, as \<open>JSON.stringify\<close> writes it.\<close>

definition number_json :: "real option \<Rightarrow> json" where
  "number_json x = (case x of None \<Rightarrow> JNull | Some v \<Rightarrow> JNum v)"

definition sample_json :: "MarketSample \<Rightarrow> json" where
  "sample_json m =
     JObj [(''symbol'', JStr (symbol m)),
           (''timestamp'', JStr (timestamp m)),
           (''open_price'', number_json (open_price m)),
           (''high_price'', number_json (high_price m)),
           (''low_price'', number_json (low_price m)),
           (''close_price'', number_json (close_price m)),
           (''volume'', JNum (of_int (volume m))),
           (''change'', number_json (change m)),
           (''change_percent'', JNum (change_percent m)),
           (''is_market_open'', JBool (is_market_open m))]"


definition fetchMarketData :: "runtime \<Rightarrow> upstream \<Rightarrow> random_draws \<Rightarrow> clock \<Rightarrow> string \<Rightarrow> json" where
  "fetchMarketData rt env rnd clk symb =
     (case market_response env of
        Some d \<Rightarrow> if truthy d then d else sample_json (generateMockMarketData rt rnd clk symb)
      | None \<Rightarrow> sample_json (generateMockMarketData rt rnd clk symb))"

definition fetchTechnicalData :: "upstream \<Rightarrow> json" where
  "fetchTechnicalData env =
     (case technical_response env of
        Some d \<Rightarrow> if truthy d then d else JNull
      | None \<Rightarrow> JNull)"

definition fetchSentimentData :: "upstream \<Rightarrow> json" where
  "fetchSentimentData env =
     (case sentiment_response env of
        Some d \<Rightarrow> if truthy d then d else JNull
      | None \<Rightarrow> JNull)"

definition cache_key :: "string \<Rightarrow> string" where
  "cache_key symb = ''market_data:'' @ symb"

definition bus_message_json :: "string \<Rightarrow> json \<Rightarrow> json" where
  "bus_message_json symb combinedData =
     JObj [(''type'', JStr ''market_data''), (''symbol'', JStr symb), (''data'', combinedData)]"

text \<open>
  \<open>updateSymbolData\<close>: the three promises always fulfil, so every facet is the value of its
  fetch. The record is cached for 300 seconds and published on \<open>market_updates\<close>; neither
  call throws (\<open>RedisService\<close> returns \<open>false\<close>), the results are not inspected, and no
  listener of \<open>dataUpdated\<close> is registered, so the \<open>catch\<close> is never entered.
\<close>

definition updateSymbolData ::
  "runtime \<Rightarrow> upstream \<Rightarrow> random_draws \<Rightarrow> clock \<Rightarrow> string \<Rightarrow> redis_state \<Rightarrow> json \<times> redis_state" where
  "updateSymbolData rt env rnd clk symb rs =
     (let combinedData =
            JObj [(''symbol'', JStr symb),
                  (''timestamp'', JStr (now_iso clk)),
                  (''market'', fetchMarketData rt env rnd clk symb),
                  (''technical'', fetchTechnicalData env),
                  (''sentiment'', fetchSentimentData env),
                  (''lastUpdated'', JNum (of_int (now_ms clk)))];
          rs1 = snd (redis_set rt (now_ms clk) (cache_key symb) combinedData (Some 300) rs);
          rs2 = snd (redis_publish rt ''market_updates'' (bus_message_json symb combinedData) rs1)
      in (combinedData, rs2))"

text \<open>The number that \<open>Date.now() - v\<close> subtracts, for a property value \<open>v\<close>
  (\<open>None\<close> on the left is \<open>undefined\<close>, \<open>None\<close> on the right is \<open>NaN\<close>).\<close>

fun to_number :: "runtime \<Rightarrow> json option \<Rightarrow> real option" where
  "to_number rt None = None"
| "to_number rt (Some JNull) = Some 0"
| "to_number rt (Some (JBool b)) = Some (if b then 1 else 0)"
| "to_number rt (Some (JNum x)) = Some x"
| "to_number rt (Some (JObj kvs)) = None"
| "to_number rt (Some v) = coerce_number rt v"

text \<open>\<open>(Date.now() - cachedData.lastUpdated) < 30000\<close>; a comparison with \<open>NaN\<close> is false.\<close>

definition is_fresh :: "runtime \<Rightarrow> clock \<Rightarrow> json \<Rightarrow> bool" where
  "is_fresh rt clk cachedData =
     (case to_number rt (jprop cachedData ''lastUpdated'') of
        None \<Rightarrow> False
      | Some lastUpdated \<Rightarrow> of_int (now_ms clk) - lastUpdated < 30000)"

definition getLatestData ::
  "runtime \<Rightarrow> upstream \<Rightarrow> random_draws \<Rightarrow> clock \<Rightarrow> string \<Rightarrow> redis_state \<Rightarrow> json \<times> redis_state" where
  "getLatestData rt env rnd clk symb rs =
     (let (cachedData, rs1) = redis_get rt (now_ms clk) (cache_key symb) rs
      in if truthy cachedData \<and> is_fresh rt clk cachedData
         then (cachedData, rs1)
         else updateSymbolData rt env rnd clk symb rs1)"

section \<open>The snapshot request of the entry point\<close>

text \<open>
  What one call of \<open>getLatestData\<close> meets: the outcome of its upstream requests, the random
  draws and the clock. The loop of the \<open>request-initial-data\<close> handler makes one call for
  every symbol of the list; \<open>w i\<close> is what the call of iteration \<open>i\<close> meets.
\<close>

record world =
  w_upstream :: upstream
  w_draws :: random_draws
  w_clock :: clock

text \<open>The \<open>for\<close> loop of the handler: for each symbol in turn, \<open>getLatestData\<close> and then one
  \<open>market-data\<close> event \<open>{symbol, data}\<close> (without a timestamp) to the requesting socket.\<close>

fun request_loop ::
  "runtime \<Rightarrow> (nat \<Rightarrow> world) \<Rightarrow> string \<Rightarrow> nat \<Rightarrow> string list
     \<Rightarrow> ws_state \<times> redis_state \<Rightarrow> ws_state \<times> redis_state" where
  "request_loop rt w sock i [] st = st"
| "request_loop rt w sock i (symb # rest) st =
     (let (dat, rs') =
            getLatestData rt (w_upstream (w i)) (w_draws (w i)) (w_clock (w i)) symb (snd st)
      in request_loop rt w sock (Suc i) rest
           (socket_emit sock (MarketData symb dat None) (fst st), rs'))"

definition on_request_initial_data ::
  "runtime \<Rightarrow> (nat \<Rightarrow> world) \<Rightarrow> string \<Rightarrow> payload
     \<Rightarrow> ws_state \<times> redis_state \<Rightarrow> ws_state \<times> redis_state" where
  "on_request_initial_data rt w sock symbols st =
     (case symbols of
        PArr syms \<Rightarrow> request_loop rt w sock 0 syms st
      | _ \<Rightarrow> st)"

section \<open>Registry invariants and example inputs\<close>

text \<open>The two consistency properties of the registry: the subscriber index against the
  interest sets, and the rooms of the transport against the interest sets.\<close>

definition registry_consistent :: "ws_state \<Rightarrow> bool" where
  "registry_consistent s = (\<forall>c S. in_index s S c = (S \<in> interestSet s c))"

definition rooms_consistent :: "ws_state \<Rightarrow> bool" where
  "rooms_consistent s = (\<forall>c S. (c \<in> rooms s (room S)) = (S \<in> interestSet s c))"

text \<open>Concrete inputs, for the witnesses and counterexamples: a clock, a connection
  \<open>c1\<close> that connects to the empty registry and subscribes to \<open>NIFTY\<close>, two aggregated
  records, the random draws \<open>0\<close>, an upstream that fails on all three requests, a runtime
  whose serializer knows two values and whose arithmetic is exact, and three states of the cache store.\<close>

definition clk0 :: clock where
  "clk0 = \<lparr>now_ms = 1700000000000, now_iso = ''2023-11-14T22:13:20.000Z'', hours = 10, minutes = 30\<rparr>"

definition clk_later :: clock where
  "clk_later = \<lparr>now_ms = 1700000040000, now_iso = ''2023-11-14T22:14:00.000Z'', hours = 10, minutes = 30\<rparr>"

definition s_connected :: ws_state where
  "s_connected = handleConnection clk0 ''c1'' empty_registry"

definition s_subscribed :: ws_state where
  "s_subscribed = handleSubscription clk0 ''c1'' (PArr [''NIFTY'']) s_connected"

definition record_without_market :: json where
  "record_without_market =
     JObj [(''symbol'', JStr ''NIFTY''), (''timestamp'', JStr ''2023-11-14T22:13:20.000Z''),
           (''market'', JNull), (''technical'', JNull), (''sentiment'', JNull),
           (''lastUpdated'', JNum 1700000000000)]"

definition full_record :: json where
  "full_record =
     JObj [(''symbol'', JStr ''NIFTY''), (''timestamp'', JStr ''2023-11-14T22:13:20.000Z''),
           (''market'', JObj [(''close_price'', JNum 21000)]),
           (''technical'', JObj [(''rsi'', JNum 55)]), (''sentiment'', JNull),
           (''lastUpdated'', JNum 1700000000000)]"

definition zero_draws :: random_draws where
  "zero_draws = \<lparr>r_change = 0, r_open = 0, r_high = 0, r_low = 0, r_volume = 0\<rparr>"

definition all_failing :: upstream where
  "all_failing = \<lparr>market_response = None, technical_response = None, sentiment_response = None\<rparr>"

definition table_runtime :: runtime where
  "table_runtime =
     \<lparr>stringify = (\<lambda>v. if v = full_record then ''R'' else ''null''),
      parse = (\<lambda>s. if s = ''R'' then Some full_record
                   else if s = ''null'' then Some JNull else None),
      coerce_number = (\<lambda>v. None),
      to_double = (\<lambda>x. x)\<rparr>"

definition world0 :: "nat \<Rightarrow> world" where
  "world0 i = \<lparr>w_upstream = all_failing, w_draws = zero_draws, w_clock = clk0\<rparr>"

definition rs_empty :: redis_state where
  "rs_empty =
     \<lparr>isConnected = True, reachable = True, store = Map.empty, published = [],
      channels = {}, commands = 0\<rparr>"

definition rs_cached :: redis_state where
  "rs_cached =
     \<lparr>isConnected = True, reachable = True,
      store = [cache_key ''NIFTY'' \<mapsto> (''R'', Some 1700000300000)], published = [],
      channels = {}, commands = 0\<rparr>"

definition rs_disconnected :: redis_state where
  "rs_disconnected =
     \<lparr>isConnected = False, reachable = False,
      store = [cache_key ''NIFTY'' \<mapsto> (''R'', Some 1700000300000)], published = [],
      channels = {}, commands = 0\<rparr>"

section \<open>Properties of the connection registry\<close>

subsection \<open>What the subscribe and unsubscribe loops compute\<close>

lemma subscribe_symbol_clients:
  "connectedClients (subscribe_symbol sock symb s) =
     (case connectedClients s sock of
        None \<Rightarrow> connectedClients s
      | Some ci \<Rightarrow> (connectedClients s)(sock \<mapsto>
          ci\<lparr>clientSubscriptions := insert symb (clientSubscriptions ci)\<rparr>))"
  by (simp add: subscribe_symbol_def socket_join_def Let_def split: option.splits)

lemma subscribe_symbol_index:
  "subscriptions (subscribe_symbol sock symb s) =
     (subscriptions s)(symb \<mapsto>
        insert sock (case subscriptions s symb of None \<Rightarrow> {} | Some ids \<Rightarrow> ids))"
  by (simp add: subscribe_symbol_def socket_join_def Let_def split: option.splits)

lemma subscribe_symbol_rooms:
  "rooms (subscribe_symbol sock symb s) =
     (rooms s)(room symb := insert sock (rooms s (room symb)))"
  by (simp add: subscribe_symbol_def socket_join_def Let_def)

lemma subscribe_symbol_inbox:
  "inbox (subscribe_symbol sock symb s) = inbox s"
  by (simp add: subscribe_symbol_def socket_join_def Let_def)

lemma fold_subscribe_clients:
  "connectedClients (fold (subscribe_symbol sock) syms s) =
     (case connectedClients s sock of
        None \<Rightarrow> connectedClients s
      | Some ci \<Rightarrow> (connectedClients s)(sock \<mapsto>
          ci\<lparr>clientSubscriptions := clientSubscriptions ci \<union> set syms\<rparr>))"
proof (induction syms arbitrary: s)
  case Nil
  show ?case by (auto split: option.splits)
next
  case (Cons a syms)
  show ?case
    by (simp add: Cons.IH subscribe_symbol_clients split: option.splits)
qed

lemma fold_subscribe_index:
  "subscriptions (fold (subscribe_symbol sock) syms s) symb =
     (if symb \<in> set syms
      then Some (insert sock (case subscriptions s symb of None \<Rightarrow> {} | Some ids \<Rightarrow> ids))
      else subscriptions s symb)"
proof (induction syms arbitrary: s)
  case Nil
  show ?case by simp
next
  case (Cons a syms)
  show ?case
    by (auto simp add: Cons.IH subscribe_symbol_index split: option.splits)
qed

lemma fold_subscribe_rooms:
  "rooms (fold (subscribe_symbol sock) syms s) r =
     (if r \<in> room ` set syms then insert sock (rooms s r) else rooms s r)"
proof (induction syms arbitrary: s)
  case Nil
  show ?case by simp
next
  case (Cons a syms)
  show ?case
    by (auto simp add: Cons.IH subscribe_symbol_rooms)
qed

lemma fold_subscribe_inbox:
  "inbox (fold (subscribe_symbol sock) syms s) = inbox s"
  by (induction syms arbitrary: s) (simp_all add: subscribe_symbol_inbox)

lemma touch_simps:
  "subscriptions (touch clk sock s) = subscriptions s"
  "rooms (touch clk sock s) = rooms s"
  "inbox (touch clk sock s) = inbox s"
  "connectedClients (touch clk sock s) c =
     (if c = sock then map_option (\<lambda>ci. ci\<lparr>lastActivity := now_ms clk\<rparr>) (connectedClients s sock)
      else connectedClients s c)"
  by (auto simp: touch_def split: option.splits)

lemma socket_emit_simps:
  "subscriptions (socket_emit sock ev s) = subscriptions s"
  "rooms (socket_emit sock ev s) = rooms s"
  "connectedClients (socket_emit sock ev s) = connectedClients s"
  "inbox (socket_emit sock ev s) c = (if c = sock then inbox s sock @ [ev] else inbox s c)"
  by (auto simp: socket_emit_def)

lemma handleSubscription_interest:
  "interestSet (handleSubscription clk sock (PArr syms) s) c =
     (if c = sock \<and> connectedClients s sock \<noteq> None then interestSet s c \<union> set syms
      else interestSet s c)"
  by (auto simp: interestSet_def handleSubscription_def socket_emit_simps touch_simps
      fold_subscribe_clients split: option.splits)

lemma handleSubscription_index:
  "subscriptions (handleSubscription clk sock (PArr syms) s) symb =
     (if symb \<in> set syms \<and> connectedClients s sock \<noteq> None
      then Some (insert sock (case subscriptions s symb of None \<Rightarrow> {} | Some ids \<Rightarrow> ids))
      else subscriptions s symb)"
  by (auto simp: handleSubscription_def socket_emit_simps touch_simps
      fold_subscribe_index split: option.splits)

lemma handleSubscription_connected:
  "(connectedClients (handleSubscription clk sock p s) c = None) = (connectedClients s c = None)"
  by (auto simp: handleSubscription_def socket_emit_simps touch_simps
      fold_subscribe_clients split: option.splits payload.splits)

lemma handleSubscription_inbox:
  "inbox (handleSubscription clk sock (PArr syms) s) c =
     (if c = sock \<and> connectedClients s sock \<noteq> None
      then inbox s c @ [SubscriptionConfirmed syms (now_iso clk)] else inbox s c)"
  by (auto simp: handleSubscription_def socket_emit_simps touch_simps
      fold_subscribe_inbox split: option.splits)

lemma handleSubscription_rooms:
  "rooms (handleSubscription clk sock (PArr syms) s) r =
     (if r \<in> room ` set syms \<and> connectedClients s sock \<noteq> None
      then insert sock (rooms s r) else rooms s r)"
  by (auto simp: handleSubscription_def socket_emit_simps touch_simps
      fold_subscribe_rooms split: option.splits)

lemma on_subscribe_inbox: "inbox (on_subscribe sock p s) = inbox s"
proof (cases p)
  case (PArr syms)
  have "inbox (fold (\<lambda>symbol. socket_join sock (room symbol)) syms s) = inbox s"
    by (induction syms arbitrary: s) (simp_all add: socket_join_def)
  then show ?thesis by (simp add: on_subscribe_def PArr)
qed (simp_all add: on_subscribe_def)

lemma unsubscribe_symbol_in_index:
  "in_index (unsubscribe_symbol sock symb s) S c =
     (in_index s S c \<and> \<not> (S = symb \<and> c = sock))"
  by (auto simp: in_index_def unsubscribe_symbol_def socket_leave_def Let_def
      split: option.splits if_splits)

lemma unsubscribe_symbol_interest:
  "interestSet (unsubscribe_symbol sock symb s) c =
     (if c = sock then interestSet s c - {symb} else interestSet s c)"
  by (auto simp: interestSet_def unsubscribe_symbol_def socket_leave_def Let_def
      split: option.splits if_splits)

lemma unsubscribe_symbol_rooms:
  "rooms (unsubscribe_symbol sock symb s) =
     (rooms s)(room symb := rooms s (room symb) - {sock})"
  by (auto simp: unsubscribe_symbol_def socket_leave_def Let_def
      split: option.splits if_splits)

lemma unsubscribe_symbol_inbox: "inbox (unsubscribe_symbol sock symb s) = inbox s"
  by (auto simp: unsubscribe_symbol_def socket_leave_def Let_def
      split: option.splits if_splits)

lemma unsubscribe_symbol_connected:
  "(connectedClients (unsubscribe_symbol sock symb s) c = None) = (connectedClients s c = None)"
  by (auto simp: unsubscribe_symbol_def socket_leave_def Let_def
      split: option.splits if_splits)

lemma fold_unsubscribe_in_index:
  "in_index (fold (unsubscribe_symbol sock) syms s) S c =
     (in_index s S c \<and> \<not> (S \<in> set syms \<and> c = sock))"
  by (induction syms arbitrary: s) (auto simp: unsubscribe_symbol_in_index)

lemma fold_unsubscribe_interest:
  "interestSet (fold (unsubscribe_symbol sock) syms s) c =
     (if c = sock then interestSet s c - set syms else interestSet s c)"
  by (induction syms arbitrary: s) (auto simp: unsubscribe_symbol_interest)

lemma fold_unsubscribe_rooms:
  "rooms (fold (unsubscribe_symbol sock) syms s) r =
     (if r \<in> room ` set syms then rooms s r - {sock} else rooms s r)"
  by (induction syms arbitrary: s) (auto simp: unsubscribe_symbol_rooms)

lemma fold_unsubscribe_inbox: "inbox (fold (unsubscribe_symbol sock) syms s) = inbox s"
  by (induction syms arbitrary: s) (simp_all add: unsubscribe_symbol_inbox)

lemma interestSet_touch: "interestSet (touch clk sock s) c = interestSet s c"
  by (auto simp: interestSet_def touch_simps split: option.splits)

lemma interestSet_socket_emit: "interestSet (socket_emit sock ev s) c = interestSet s c"
  by (simp add: interestSet_def socket_emit_simps)

lemma in_index_touch: "in_index (touch clk sock s) S c = in_index s S c"
  by (simp add: in_index_def touch_simps)

lemma in_index_socket_emit: "in_index (socket_emit sock ev s) S c = in_index s S c"
  by (simp add: in_index_def socket_emit_simps)

lemma handleUnsubscription_in_index:
  "in_index (handleUnsubscription clk sock (PArr syms) s) S c =
     (in_index s S c \<and> \<not> (S \<in> set syms \<and> c = sock \<and> connectedClients s sock \<noteq> None))"
  by (auto simp: handleUnsubscription_def in_index_touch in_index_socket_emit
      fold_unsubscribe_in_index split: option.splits)

lemma handleUnsubscription_interest:
  "interestSet (handleUnsubscription clk sock (PArr syms) s) c =
     (if c = sock then interestSet s c - set syms else interestSet s c)"
  by (auto simp: handleUnsubscription_def interestSet_touch interestSet_socket_emit
      fold_unsubscribe_interest split: option.splits)
    (auto simp: interestSet_def)

lemma handleUnsubscription_rooms:
  "rooms (handleUnsubscription clk sock (PArr syms) s) r =
     (if r \<in> room ` set syms \<and> connectedClients s sock \<noteq> None
      then rooms s r - {sock} else rooms s r)"
  by (auto simp: handleUnsubscription_def socket_emit_simps touch_simps
      fold_unsubscribe_rooms split: option.splits)

lemma handleSubscription_in_index:
  "in_index (handleSubscription clk sock (PArr syms) s) S c =
     (in_index s S c \<or> (S \<in> set syms \<and> c = sock \<and> connectedClients s sock \<noteq> None))"
  by (auto simp: in_index_def handleSubscription_index split: option.splits)

lemma handleDisconnection_index:
  "subscriptions (handleDisconnection sock s) = subscriptions s"
  by (simp add: handleDisconnection_def split: option.splits)

lemma handleDisconnection_clients:
  "connectedClients (handleDisconnection sock s) = (connectedClients s)(sock := None)"
  by (auto simp add: handleDisconnection_def split: option.splits)

lemma io_to_emit_simps:
  "rooms (io_to_emit r ev s) = rooms s"
  "connectedClients (io_to_emit r ev s) = connectedClients s"
  "subscriptions (io_to_emit r ev s) = subscriptions s"
  "inbox (io_to_emit r ev s) c = (if c \<in> rooms s r then inbox s c @ [ev] else inbox s c)"
  by (simp_all add: io_to_emit_def)

subsection \<open>The invariants that subscribe and unsubscribe maintain\<close>

text \<open>
  \<open>handleSubscription\<close> and \<open>handleUnsubscription\<close> update the interest set and the subscriber
  index together, so each preserves their agreement, for every payload. All three handlers
  keep the rooms of the transport in step with the interest sets.
\<close>

lemma interestSet_unregistered: "connectedClients s c = None \<Longrightarrow> interestSet s c = {}"
  by (simp add: interestSet_def)

lemma registry_consistent_empty: "registry_consistent empty_registry"
  by (simp add: registry_consistent_def in_index_def interestSet_def empty_registry_def)

lemma handleSubscription_consistent:
  assumes "registry_consistent s"
  shows "registry_consistent (handleSubscription clk sock p s)"
proof (cases p)
  case (PArr syms)
  show ?thesis
    using assms unfolding registry_consistent_def PArr
    by (auto simp: handleSubscription_in_index handleSubscription_interest)
qed (use assms in \<open>simp_all add: handleSubscription_def split: option.splits\<close>)

lemma handleUnsubscription_consistent:
  assumes "registry_consistent s"
  shows "registry_consistent (handleUnsubscription clk sock p s)"
proof (cases p)
  case (PArr syms)
  show ?thesis
    using assms unfolding registry_consistent_def PArr
    by (auto simp: handleUnsubscription_in_index handleUnsubscription_interest
        dest: interestSet_unregistered)
qed (use assms in \<open>simp_all add: handleUnsubscription_def split: option.splits\<close>)

lemma room_inject: "(room a = room b) = (a = b)"
  by (simp add: room_def)

lemma handleSubscription_rooms_consistent:
  assumes "rooms_consistent s"
  shows "rooms_consistent (handleSubscription clk sock p s)"
proof (cases p)
  case (PArr syms)
  show ?thesis
    using assms unfolding rooms_consistent_def PArr
    by (auto simp: handleSubscription_rooms handleSubscription_interest room_inject)
qed (use assms in \<open>simp_all add: handleSubscription_def split: option.splits\<close>)

lemma handleUnsubscription_rooms_consistent:
  assumes "rooms_consistent s"
  shows "rooms_consistent (handleUnsubscription clk sock p s)"
proof (cases p)
  case (PArr syms)
  show ?thesis
    using assms unfolding rooms_consistent_def PArr
    by (auto simp: handleUnsubscription_rooms handleUnsubscription_interest room_inject
        dest: interestSet_unregistered)
qed (use assms in \<open>simp_all add: handleUnsubscription_def split: option.splits\<close>)

lemma handleDisconnection_rooms_consistent:
  assumes "rooms_consistent s"
  shows "rooms_consistent (handleDisconnection sock s)"
  using assms unfolding rooms_consistent_def
  by (auto simp: handleDisconnection_def interestSet_def room_inject split: option.splits)

subsection \<open>The example connection\<close>

lemma s_connected_client:
  "connectedClients s_connected ''c1'' =
     Some \<lparr>client_id = ''c1'', connectedAt = now_iso clk0, clientSubscriptions = {},
           lastActivity = now_ms clk0\<rparr>"
  by (simp add: s_connected_def handleConnection_def socket_emit_simps)

lemma s_connected_inbox:
  "inbox s_connected ''c1'' = [ConnectionEstablished ''c1'' (now_iso clk0) availableChannels]"
  by (simp add: s_connected_def handleConnection_def socket_emit_simps empty_registry_def)

lemma s_connected_index: "subscriptions s_connected = Map.empty"
  by (simp add: s_connected_def handleConnection_def socket_emit_simps empty_registry_def)

lemma s_connected_rooms: "rooms s_connected r = {}"
  by (simp add: s_connected_def handleConnection_def socket_emit_simps empty_registry_def)

lemma s_connected_interest: "interestSet s_connected ''c1'' = {}"
  by (simp add: interestSet_def s_connected_client)

lemma s_subscribed_interest: "interestSet s_subscribed ''c1'' = {''NIFTY''}"
  by (simp add: s_subscribed_def handleSubscription_interest s_connected_client
      s_connected_interest)

lemma s_subscribed_index: "subscriptions s_subscribed ''NIFTY'' = Some {''c1''}"
  by (simp add: s_subscribed_def handleSubscription_index s_connected_client s_connected_index)

lemma s_subscribed_rooms:
  "rooms s_subscribed r = (if r = room ''NIFTY'' then {''c1''} else {})"
  by (simp add: s_subscribed_def handleSubscription_rooms s_connected_client s_connected_rooms)

lemma s_subscribed_inbox:
  "inbox s_subscribed c =
     (if c = ''c1'' then [ConnectionEstablished ''c1'' (now_iso clk0) availableChannels,
        SubscriptionConfirmed [''NIFTY''] (now_iso clk0)] else inbox s_connected c)"
  by (simp add: s_subscribed_def handleSubscription_inbox s_connected_client s_connected_inbox)

subsection \<open>The claims about the registry and the router\<close>

text \<open>
  C1 (subscription/index consistency). The claim asks that after every sequence of
  operations a connection id is in the index entry of \<open>S\<close> exactly when \<open>S\<close> is in that
  connection's interest set, and that after \<open>handleDisconnection\<close> the id is in no entry.
  \<open>handleDisconnection\<close> leaves the rooms and deletes the client but never updates the
  \<open>subscriptions\<close> Map: after connect, subscribe \<open>[NIFTY]\<close>, disconnect, the id \<open>c1\<close> is still
  in the index entry of \<open>NIFTY\<close>, while the connection has no interest set any more.
\<close>

theorem disconnect_leaves_stale_index_entry:
  "in_index (handleDisconnection ''c1'' s_subscribed) ''NIFTY'' ''c1''
   \<and> ''NIFTY'' \<notin> interestSet (handleDisconnection ''c1'' s_subscribed) ''c1''"
  by (simp add: in_index_def interestSet_def handleDisconnection_index
      handleDisconnection_clients s_subscribed_index)

text \<open>
  C7 (subscribe is idempotent). For every state, connection \<open>C\<close> and symbol \<open>S\<close>, handling
  \<open>subscribe [S]\<close> for \<open>C\<close> twice in succession leaves the interest set of every connection
  and the whole per-symbol subscriber index exactly as handling it once does (whatever the
  clock reads at the two calls; for a connection that is not registered both are no-ops).
\<close>

theorem subscribe_idempotent:
  "interestSet (handleSubscription clk2 C (PArr [S]) (handleSubscription clk1 C (PArr [S]) s))
     = interestSet (handleSubscription clk1 C (PArr [S]) s)
   \<and> subscriptions (handleSubscription clk2 C (PArr [S]) (handleSubscription clk1 C (PArr [S]) s))
     = subscriptions (handleSubscription clk1 C (PArr [S]) s)"
proof
  show "interestSet (handleSubscription clk2 C (PArr [S]) (handleSubscription clk1 C (PArr [S]) s))
     = interestSet (handleSubscription clk1 C (PArr [S]) s)"
    by (rule ext) (auto simp: handleSubscription_interest handleSubscription_connected)
  show "subscriptions (handleSubscription clk2 C (PArr [S]) (handleSubscription clk1 C (PArr [S]) s))
     = subscriptions (handleSubscription clk1 C (PArr [S]) s)"
    by (rule ext) (auto simp: handleSubscription_index handleSubscription_connected)
qed

text \<open>
  C8 (malformed inbound message). For every payload that is not a list, the subscribe and
  unsubscribe handlers of the service and of the entry point return the state they were
  given: no registry entry, room or interest set changes and no event is delivered to any
  connection. The handlers have no failing path on such a payload.
\<close>

theorem non_list_symbols_ignored:
  assumes "\<not> isArray p"
  shows "handleSubscription clk sock p s = s \<and> handleUnsubscription clk sock p s = s
         \<and> on_subscribe sock p s = s \<and> on_unsubscribe sock p s = s"
  using assms
  by (cases p) (simp_all add: handleSubscription_def handleUnsubscription_def
      on_subscribe_def on_unsubscribe_def split: option.splits)

text \<open>
  C8, witness: the string payload \<open>"NIFTY"\<close> sent by the registered connection \<open>c1\<close>.
\<close>

theorem non_list_symbols_ignored_witness:
  "\<not> isArray (PStr ''NIFTY'')
   \<and> handleSubscription clk0 ''c1'' (PStr ''NIFTY'') s_connected = s_connected
   \<and> handleUnsubscription clk0 ''c1'' (PStr ''NIFTY'') s_connected = s_connected
   \<and> on_subscribe ''c1'' (PStr ''NIFTY'') s_connected = s_connected
   \<and> on_unsubscribe ''c1'' (PStr ''NIFTY'') s_connected = s_connected
   \<and> connectedClients s_connected ''c1'' \<noteq> None"
  using non_list_symbols_ignored [of "PStr ''NIFTY''" clk0 "''c1''" s_connected]
  by (simp add: s_connected_client)

text \<open>
  C2, counterexample. The claim says that each facet's notification is sent only if the
  facet is present. For a record whose \<open>market\<close> facet is \<open>null\<close>, the subscribed connection
  \<open>c1\<close> still receives the \<open>market-data\<close> event (it carries the whole record).
\<close>

theorem market_data_sent_without_market_facet:
  "jprop record_without_market ''market'' = Some JNull
   \<and> filter is_market_data
       (inbox (handleMarketUpdate clk0
          \<lparr>msg_type = ''market_data'', msg_symbol = ''NIFTY'', msg_data = record_without_market\<rparr>
          s_subscribed) ''c1'')
     = [MarketData ''NIFTY'' record_without_market (Some (now_iso clk0))]"
  by (simp add: handleMarketUpdate_def Let_def io_to_emit_simps s_subscribed_rooms
      s_subscribed_inbox record_without_market_def)

text \<open>
  C2, as amended. For every bus notification of type \<open>market_data\<close> with a non-empty symbol
  \<open>S\<close> and a record, \<open>handleMarketUpdate\<close> delivers to every connection in the room of \<open>S\<close>, in
  this order: exactly one \<open>market-data\<close> event carrying the whole record, whether or not
  its \<open>market\<close> facet is present; then one \<open>technical-update\<close> carrying the \<open>technical\<close> facet
  exactly when that facet is truthy (so never when it is absent or \<open>null\<close>); then one
  \<open>sentiment-update\<close> likewise. A connection that is not in the room of \<open>S\<close> receives nothing.
  (By the lemmas on \<open>rooms_consistent\<close>, the handlers of the service keep a connection in the
  room of \<open>S\<close> exactly when \<open>S\<close> is in its interest set.)
\<close>

theorem market_update_routing:
  assumes "msg_type data = ''market_data''" and "msg_symbol data \<noteq> []"
    and "truthy (msg_data data)"
  shows "inbox (handleMarketUpdate clk data s) c =
     (if c \<in> rooms s (room (msg_symbol data))
      then inbox s c
           @ [MarketData (msg_symbol data) (msg_data data) (Some (now_iso clk))]
           @ (case jprop (msg_data data) ''technical'' of
                Some technical \<Rightarrow>
                  if truthy technical
                  then [TechnicalUpdate (msg_symbol data) technical (now_iso clk)] else []
              | None \<Rightarrow> [])
           @ (case jprop (msg_data data) ''sentiment'' of
                Some sentiment \<Rightarrow>
                  if truthy sentiment
                  then [SentimentUpdate (msg_symbol data) sentiment (now_iso clk)] else []
              | None \<Rightarrow> [])
      else inbox s c)"
  using assms
  by (simp add: handleMarketUpdate_def Let_def io_to_emit_simps split: option.splits)

text \<open>
  C2, witness: a record with a market and a technical facet and a \<open>null\<close> sentiment,
  delivered to the subscriber \<open>c1\<close> and not to \<open>c2\<close>.
\<close>

theorem market_update_routing_witness:
  "msg_type \<lparr>msg_type = ''market_data'', msg_symbol = ''NIFTY'', msg_data = full_record\<rparr>
     = ''market_data''
   \<and> truthy full_record
   \<and> inbox (handleMarketUpdate clk0
        \<lparr>msg_type = ''market_data'', msg_symbol = ''NIFTY'', msg_data = full_record\<rparr>
        s_subscribed) ''c1''
     = [ConnectionEstablished ''c1'' (now_iso clk0) availableChannels,
        SubscriptionConfirmed [''NIFTY''] (now_iso clk0),
        MarketData ''NIFTY'' full_record (Some (now_iso clk0)),
        TechnicalUpdate ''NIFTY'' (JObj [(''rsi'', JNum 55)]) (now_iso clk0)]
   \<and> inbox (handleMarketUpdate clk0
        \<lparr>msg_type = ''market_data'', msg_symbol = ''NIFTY'', msg_data = full_record\<rparr>
        s_subscribed) ''c2'' = []"
  using market_update_routing [of
      "\<lparr>msg_type = ''market_data'', msg_symbol = ''NIFTY'', msg_data = full_record\<rparr>"
      clk0 s_subscribed "''c1''"]
    market_update_routing [of
      "\<lparr>msg_type = ''market_data'', msg_symbol = ''NIFTY'', msg_data = full_record\<rparr>"
      clk0 s_subscribed "''c2''"]
  by (simp add: s_subscribed_rooms s_subscribed_inbox full_record_def s_connected_def
      handleConnection_def socket_emit_simps empty_registry_def)

section \<open>Properties of the Cache Store\<close>

lemma issue_simps:
  "isConnected (issue rs) = isConnected rs"
  "reachable (issue rs) = reachable rs"
  "store (issue rs) = store rs"
  "published (issue rs) = published rs"
  "channels (issue rs) = channels rs"
  "commands (issue rs) = Suc (commands rs)"
  by (simp_all add: issue_def)

lemma redis_set_ok:
  assumes "isConnected rs" and "reachable rs" and "0 < ttl"
  shows "redis_set rt now key v (Some ttl) rs =
     (True, issue (rs\<lparr>store := (store rs)(key \<mapsto> (stringify rt v, Some (now + 1000 * ttl)))\<rparr>))"
  using assms by (simp add: redis_set_def client_setEx_def Let_def)

lemma redis_get_live:
  assumes "isConnected rs" and "reachable rs"
  shows "fst (redis_get rt now key rs) =
     (case live_value now rs key of
        None \<Rightarrow> JNull
      | Some v \<Rightarrow> if v \<noteq> [] then (case parse rt v of None \<Rightarrow> JNull | Some parsed \<Rightarrow> parsed) else JNull)"
  using assms by (simp add: redis_get_def client_get_def split: option.splits)

lemma commands_redis_set:
  "commands (snd (redis_set rt now key v ttl rs)) \<le> Suc (commands rs)"
  by (simp add: redis_set_def client_setEx_def client_set_def issue_simps Let_def
      split: option.splits)

lemma commands_redis_get:
  "commands (snd (redis_get rt now key rs)) \<le> Suc (commands rs)"
  by (simp add: redis_get_def client_get_def issue_simps split: option.splits)

lemma commands_redis_del:
  "commands (snd (redis_del key rs)) \<le> Suc (commands rs)"
  by (simp add: redis_del_def client_del_def issue_simps)

lemma commands_redis_publish:
  "commands (snd (redis_publish rt channel message rs)) \<le> Suc (commands rs)"
  by (simp add: redis_publish_def client_publish_def issue_simps)

lemma commands_redis_subscribe:
  "commands (snd (redis_subscribe channel rs)) \<le> Suc (commands rs)"
  by (simp add: redis_subscribe_def client_subscribe_def issue_simps)

lemma failure_results:
  assumes "\<not> isConnected rs \<or> \<not> reachable rs"
  shows "fst (redis_set rt now key v ttl rs) = False"
    and "fst (redis_get rt now key rs) = JNull"
    and "fst (redis_del key rs) = False"
    and "fst (redis_publish rt channel message rs) = False"
    and "fst (redis_subscribe channel rs) = False"
  using assms
  by (auto simp add: redis_set_def redis_get_def redis_del_def redis_publish_def
      redis_subscribe_def client_setEx_def client_set_def client_get_def client_del_def
      client_publish_def client_subscribe_def Let_def split: option.splits)

lemma success_results:
  assumes "isConnected rs" and "reachable rs"
  shows "(case ttl of None \<Rightarrow> True | Some n \<Rightarrow> 0 \<le> n) \<Longrightarrow> fst (redis_set rt now key v ttl rs) = True"
    and "fst (redis_del key rs) = True"
    and "fst (redis_publish rt channel message rs) = True"
    and "fst (redis_subscribe channel rs) = True"
  using assms
  by (auto simp add: redis_set_def redis_del_def redis_publish_def
      redis_subscribe_def client_setEx_def client_set_def client_del_def
      client_publish_def client_subscribe_def Let_def split: option.splits)

lemma failure_changes_nothing_stored:
  assumes "\<not> isConnected rs \<or> \<not> reachable rs"
  shows "store (snd (redis_set rt now key v ttl rs)) = store rs"
    and "store (snd (redis_del key rs)) = store rs"
    and "published (snd (redis_publish rt channel message rs)) = published rs"
  using assms
  by (auto simp add: redis_set_def redis_get_def redis_del_def redis_publish_def
      redis_subscribe_def client_setEx_def client_set_def client_get_def client_del_def
      client_publish_def client_subscribe_def Let_def issue_simps split: option.splits)

lemma table_runtime_simps:
  "stringify table_runtime full_record = ''R''"
  "parse table_runtime ''R'' = Some full_record"
  by (simp_all add: table_runtime_def)

lemma redis_get_rs_cached:
  "t < 1700000300000 \<Longrightarrow>
   redis_get table_runtime t (cache_key ''NIFTY'') rs_cached = (full_record, issue rs_cached)"
  by (simp add: redis_get_def client_get_def live_value_def rs_cached_def table_runtime_simps)

text \<open>
  C6 (put then get). On a connected, reachable store, for every key, every positive ttl
  (in seconds) and every value that \<open>JSON.parse\<close> recovers from its serialization, \<open>set\<close>
  succeeds and replaces whatever entry the key had by the serialized value with the
  absolute expiry \<open>now + ttl\<close>; a \<open>get\<close> of the key at any time before that expiry returns
  the value, and a \<open>get\<close> at or after it returns \<open>null\<close> (not found).
\<close>

theorem put_get_roundtrip:
  assumes "isConnected rs" and "reachable rs" and "0 < ttl"
    and "parse rt (stringify rt v) = Some v" and "stringify rt v \<noteq> []"
  shows "fst (redis_set rt now key v (Some ttl) rs) = True
       \<and> store (snd (redis_set rt now key v (Some ttl) rs)) key
           = Some (stringify rt v, Some (now + 1000 * ttl))
       \<and> (\<forall>t. t < now + 1000 * ttl \<longrightarrow>
             fst (redis_get rt t key (snd (redis_set rt now key v (Some ttl) rs))) = v)
       \<and> (\<forall>t. now + 1000 * ttl \<le> t \<longrightarrow>
             fst (redis_get rt t key (snd (redis_set rt now key v (Some ttl) rs))) = JNull)"
  using assms
  by (simp add: redis_set_ok redis_get_live issue_simps live_value_def)

text \<open>
  C6, witness: the record of \<open>NIFTY\<close> stored for 300 seconds, read one millisecond before
  and exactly at its expiry.
\<close>

theorem put_get_roundtrip_witness:
  "isConnected rs_empty \<and> reachable rs_empty \<and> (0::int) < 300
   \<and> parse table_runtime (stringify table_runtime full_record) = Some full_record
   \<and> stringify table_runtime full_record \<noteq> []
   \<and> fst (redis_set table_runtime 1700000000000 (cache_key ''NIFTY'') full_record (Some 300) rs_empty)
   \<and> fst (redis_get table_runtime 1700000299999 (cache_key ''NIFTY'')
        (snd (redis_set table_runtime 1700000000000 (cache_key ''NIFTY'') full_record (Some 300) rs_empty)))
       = full_record
   \<and> fst (redis_get table_runtime 1700000300000 (cache_key ''NIFTY'')
        (snd (redis_set table_runtime 1700000000000 (cache_key ''NIFTY'') full_record (Some 300) rs_empty)))
       = JNull"
proof -
  have pre: "isConnected rs_empty" "reachable rs_empty" "(0::int) < 300"
    "parse table_runtime (stringify table_runtime full_record) = Some full_record"
    "stringify table_runtime full_record \<noteq> []"
    by (simp_all add: rs_empty_def table_runtime_simps)
  note r = put_get_roundtrip [OF pre, of 1700000000000 "cache_key ''NIFTY''"]
  from r have a: "fst (redis_set table_runtime 1700000000000 (cache_key ''NIFTY'') full_record (Some 300) rs_empty)"
    by simp
  from r have b: "fst (redis_get table_runtime 1700000299999 (cache_key ''NIFTY'')
        (snd (redis_set table_runtime 1700000000000 (cache_key ''NIFTY'') full_record (Some 300) rs_empty)))
       = full_record"
    by simp
  from r have c: "fst (redis_get table_runtime 1700000300000 (cache_key ''NIFTY'')
        (snd (redis_set table_runtime 1700000000000 (cache_key ''NIFTY'') full_record (Some 300) rs_empty)))
       = JNull"
    by simp
  show ?thesis using pre a b c by simp
qed

text \<open>
  C9, counterexample. The claim says that a connectivity failure of \<open>get\<close> is
  distinguishable from a successful outcome. A \<open>get\<close> on a disconnected service returns
  \<open>null\<close>, which is also what a successful \<open>get\<close> of a missing key returns.
\<close>

theorem get_failure_looks_like_miss:
  "\<not> isConnected rs_disconnected
   \<and> fst (redis_get table_runtime 1700000000000 (cache_key ''NIFTY'') rs_disconnected) = JNull
   \<and> isConnected rs_empty \<and> reachable rs_empty
   \<and> fst (redis_get table_runtime 1700000000000 (cache_key ''NIFTY'') rs_empty) = JNull"
  by (simp add: redis_get_def client_get_def live_value_def rs_disconnected_def rs_empty_def)

text \<open>
  C9, as amended. When the service is not connected or the underlying call rejects, \<open>set\<close>,
  \<open>del\<close>, \<open>publish\<close> and \<open>subscribe\<close> return \<open>false\<close>, and \<open>get\<close> returns \<open>null\<close> (the value it also
  returns for a missing key). On a connected, reachable store \<open>del\<close>, \<open>publish\<close> and
  \<open>subscribe\<close> return \<open>true\<close>, and so does \<open>set\<close> for a ttl that is absent or not negative. No
  operation retries: each issues at most one command to the client.
\<close>

theorem connectivity_failure_results:
  "(\<not> isConnected rs \<or> \<not> reachable rs \<longrightarrow>
      fst (redis_set rt now key v ttl rs) = False
      \<and> fst (redis_get rt now key rs) = JNull
      \<and> fst (redis_del key rs) = False
      \<and> fst (redis_publish rt channel message rs) = False
      \<and> fst (redis_subscribe channel rs) = False)
   \<and> (isConnected rs \<and> reachable rs \<longrightarrow>
      ((case ttl of None \<Rightarrow> True | Some n \<Rightarrow> 0 \<le> n) \<longrightarrow> fst (redis_set rt now key v ttl rs) = True)
      \<and> fst (redis_del key rs) = True
      \<and> fst (redis_publish rt channel message rs) = True
      \<and> fst (redis_subscribe channel rs) = True)
   \<and> commands (snd (redis_set rt now key v ttl rs)) \<le> Suc (commands rs)
   \<and> commands (snd (redis_get rt now key rs)) \<le> Suc (commands rs)
   \<and> commands (snd (redis_del key rs)) \<le> Suc (commands rs)
   \<and> commands (snd (redis_publish rt channel message rs)) \<le> Suc (commands rs)
   \<and> commands (snd (redis_subscribe channel rs)) \<le> Suc (commands rs)"
proof -
  have down: "\<not> isConnected rs \<or> \<not> reachable rs \<longrightarrow>
      fst (redis_set rt now key v ttl rs) = False
      \<and> fst (redis_get rt now key rs) = JNull
      \<and> fst (redis_del key rs) = False
      \<and> fst (redis_publish rt channel message rs) = False
      \<and> fst (redis_subscribe channel rs) = False"
    by (simp add: failure_results)
  have up: "isConnected rs \<and> reachable rs \<longrightarrow>
      ((case ttl of None \<Rightarrow> True | Some n \<Rightarrow> 0 \<le> n) \<longrightarrow> fst (redis_set rt now key v ttl rs) = True)
      \<and> fst (redis_del key rs) = True
      \<and> fst (redis_publish rt channel message rs) = True
      \<and> fst (redis_subscribe channel rs) = True"
    by (simp add: success_results)
  show ?thesis
    using down up
    by (simp only: commands_redis_set commands_redis_get commands_redis_del
        commands_redis_publish commands_redis_subscribe simp_thms)
qed

text \<open>
  C9, witness: the five operations on a disconnected service and on a healthy one.
\<close>

theorem connectivity_failure_results_witness:
  "\<not> isConnected rs_disconnected
   \<and> fst (redis_set table_runtime 1700000000000 (cache_key ''NIFTY'') full_record (Some 300) rs_disconnected) = False
   \<and> fst (redis_get table_runtime 1700000000000 (cache_key ''NIFTY'') rs_disconnected) = JNull
   \<and> fst (redis_del (cache_key ''NIFTY'') rs_disconnected) = False
   \<and> fst (redis_publish table_runtime ''market_updates'' full_record rs_disconnected) = False
   \<and> fst (redis_subscribe ''market_updates'' rs_disconnected) = False
   \<and> isConnected rs_empty \<and> reachable rs_empty
   \<and> fst (redis_set table_runtime 1700000000000 (cache_key ''NIFTY'') full_record (Some 300) rs_empty) = True
   \<and> fst (redis_del (cache_key ''NIFTY'') rs_empty) = True
   \<and> fst (redis_publish table_runtime ''market_updates'' full_record rs_empty) = True
   \<and> fst (redis_subscribe ''market_updates'' rs_empty) = True
   \<and> commands (snd (redis_get table_runtime 1700000000000 (cache_key ''NIFTY'') rs_empty)) \<le> Suc (commands rs_empty)"
  using connectivity_failure_results [where rs = rs_disconnected and rt = table_runtime
      and now = 1700000000000 and key = "cache_key ''NIFTY''" and v = full_record
      and ttl = "Some 300" and channel = "''market_updates''" and message = full_record]
    connectivity_failure_results [where rs = rs_empty and rt = table_runtime
      and now = 1700000000000 and key = "cache_key ''NIFTY''" and v = full_record
      and ttl = "Some 300" and channel = "''market_updates''" and message = full_record]
  by (simp add: rs_disconnected_def rs_empty_def)

section \<open>Properties of the Aggregator\<close>

subsection \<open>Rounding to the nearest double\<close>

lemma dr_mono: "double_rounding f \<Longrightarrow> x \<le> y \<Longrightarrow> f x \<le> f y"
  by (simp add: double_rounding_def)

lemma dr_int: "double_rounding f \<Longrightarrow> \<bar>n\<bar> \<le> 2 ^ 53 \<Longrightarrow> f (of_int n) = of_int n"
  by (simp add: double_rounding_def)


lemma dr_err:
  "double_rounding f \<Longrightarrow> 1 / 10 ^ 30 \<le> \<bar>x\<bar> \<Longrightarrow> \<bar>x\<bar> \<le> 10 ^ 30 \<Longrightarrow> \<bar>f x - x\<bar> \<le> \<bar>x\<bar> / 2 ^ 53"
  by (simp add: double_rounding_def)

lemma dr_eight_tenths: "double_rounding f \<Longrightarrow> 8 / 10 \<le> f (8 / 10)"
  by (simp add: double_rounding_def)


lemma dr_le:
  assumes "double_rounding f" and "1 / 10 ^ 30 \<le> u" and "u \<le> 10 ^ 30" and "x \<le> u"
    and "u + u / 2 ^ 53 \<le> u'"
  shows "f x \<le> u'"
proof -
  have "(0::real) < 1 / 10 ^ 30" by simp
  then have "u > 0" using assms(2) by linarith
  then have "\<bar>f u - u\<bar> \<le> u / 2 ^ 53" using dr_err [OF assms(1), of u] assms(2,3) by simp
  then have "f u \<le> u + u / 2 ^ 53" by linarith
  moreover have "f x \<le> f u" by (rule dr_mono [OF assms(1,4)])
  ultimately show ?thesis using assms(5) by linarith
qed


lemma dr_zero: "double_rounding f \<Longrightarrow> f 0 = 0"
  using dr_int [of f 0] by simp

lemma dr_numeral_int:
  "double_rounding f \<Longrightarrow> \<bar>n\<bar> \<le> 9007199254740992 \<Longrightarrow> f (real_of_int n) = real_of_int n"
  using dr_int [of f n] by simp



subsection \<open>The synthetic sample\<close>





lemma volume_mock_NIFTY:
  "volume (generateMockMarketData rt rnd clk ''NIFTY'') =
     \<lfloor>dmul rt 1000000 (dadd rt (literal rt 0.8) (dmul rt (r_volume rnd) (literal rt 0.4)))\<rfloor>"
  by (simp add: generateMockMarketData_def Let_def)





lemma volume_NIFTY_bounds:
  assumes dr: "double_rounding (to_double rt)"
    and r: "0 \<le> r_volume rnd" "r_volume rnd < 1"
  shows "800000 \<le> volume (generateMockMarketData rt rnd clk ''NIFTY'')"
    and "volume (generateMockMarketData rt rnd clk ''NIFTY'') \<le> 1200000"
proof -
  let ?f = "to_double rt"
  let ?r = "r_volume rnd"
  have z: "?f 0 = 0" by (rule dr_zero [OF dr])
  have e1: "4 / 5 \<le> ?f (4 / 5)" using dr_eight_tenths [OF dr] by simp
  have e2: "?f (4 / 5) \<le> 4 / 5 + 1 / 10 ^ 12"
    by (rule dr_le [OF dr, where u = "4 / 5"]) simp_all
  have f1: "0 \<le> ?f (2 / 5)" using dr_mono [OF dr, of 0 "2 / 5"] z by simp
  have f2: "?f (2 / 5) \<le> 2 / 5 + 1 / 10 ^ 12"
    by (rule dr_le [OF dr, where u = "2 / 5"]) simp_all
  have "0 \<le> ?r * ?f (2 / 5)" using r(1) f1 by simp
  then have g1: "0 \<le> ?f (?r * ?f (2 / 5))" using dr_mono [OF dr, of 0 "?r * ?f (2 / 5)"] z by simp
  have "?r * ?f (2 / 5) \<le> 1 * ?f (2 / 5)"
    by (rule mult_right_mono) (use r(2) f1 in simp_all)
  then have "?r * ?f (2 / 5) \<le> 2 / 5 + 1 / 10 ^ 12" using f2 by simp
  then have g2: "?f (?r * ?f (2 / 5)) \<le> 2 / 5 + 2 / 10 ^ 12"
    by (rule dr_le [OF dr, where u = "2 / 5 + 1 / 10 ^ 12", rotated 2]) simp_all
  have "?f (4 / 5) \<le> ?f (?f (4 / 5) + ?f (?r * ?f (2 / 5)))"
    by (rule dr_mono [OF dr]) (use e1 g1 in linarith)
  then have h1: "4 / 5 \<le> ?f (?f (4 / 5) + ?f (?r * ?f (2 / 5)))" using e1 by linarith
  have h2: "?f (?f (4 / 5) + ?f (?r * ?f (2 / 5))) \<le> 6 / 5 + 4 / 10 ^ 12"
    by (rule dr_le [OF dr, where u = "6 / 5 + 3 / 10 ^ 12"]) (use e2 g2 in simp_all)
  have m: "?f 800000 = 800000" using dr_int [OF dr, of 800000] by simp
  have "?f 800000 \<le> ?f (1000000 * ?f (?f (4 / 5) + ?f (?r * ?f (2 / 5))))"
    by (rule dr_mono [OF dr]) (use h1 in linarith)
  then have v1: "800000 \<le> ?f (1000000 * ?f (?f (4 / 5) + ?f (?r * ?f (2 / 5))))"
    using m by simp
  have v2: "?f (1000000 * ?f (?f (4 / 5) + ?f (?r * ?f (2 / 5)))) \<le> 1200000 + 1 / 10 ^ 5"
    by (rule dr_le [OF dr, where u = "1000000 * (6 / 5 + 4 / 10 ^ 12)"]) (use h2 in simp_all)
  show "800000 \<le> volume (generateMockMarketData rt rnd clk ''NIFTY'')"
    using v1 by (simp add: volume_mock_NIFTY dmul_def dadd_def literal_def le_floor_iff)
  show "volume (generateMockMarketData rt rnd clk ''NIFTY'') \<le> 1200000"
    using v2 by (simp add: volume_mock_NIFTY dmul_def dadd_def literal_def floor_le_iff)
qed

lemma volume_NIFTY_at_zero_draw:
  assumes dr: "double_rounding (to_double rt)" and r: "r_volume rnd = 0"
  shows "volume (generateMockMarketData rt rnd clk ''NIFTY'') = 800000"
proof -
  let ?f = "to_double rt"
  have z: "?f 0 = 0" by (rule dr_zero [OF dr])
  have e2: "?f (4 / 5) \<le> 4 / 5 + 1 / 10 ^ 12"
    by (rule dr_le [OF dr, where u = "4 / 5"]) simp_all
  have h2: "?f (?f (4 / 5)) \<le> 4 / 5 + 2 / 10 ^ 12"
    by (rule dr_le [OF dr, where u = "4 / 5 + 1 / 10 ^ 12"]) (use e2 in simp_all)
  have v2: "?f (1000000 * ?f (?f (4 / 5))) \<le> 800000 + 1 / 10 ^ 5"
    by (rule dr_le [OF dr, where u = "1000000 * (4 / 5 + 2 / 10 ^ 12)"]) (use h2 in simp_all)
  have "volume (generateMockMarketData rt rnd clk ''NIFTY'') \<le> 800000"
    using v2 r z by (simp add: volume_mock_NIFTY dmul_def dadd_def literal_def floor_le_iff)
  moreover have "800000 \<le> volume (generateMockMarketData rt rnd clk ''NIFTY'')"
    by (rule volume_NIFTY_bounds(1) [OF dr]) (simp_all add: r)
  ultimately show ?thesis by linarith
qed


lemma fetchMarketData_cases:
  "fetchMarketData rt env rnd clk symb =
     (case market_response env of
        None \<Rightarrow> sample_json (generateMockMarketData rt rnd clk symb)
      | Some d \<Rightarrow> if truthy d then d else sample_json (generateMockMarketData rt rnd clk symb))"
  by (simp add: fetchMarketData_def)


lemma fetchMarketData_truthy: "truthy (fetchMarketData rt env rnd clk symb)"
  by (simp add: fetchMarketData_def sample_json_def split: option.splits)

lemma updateSymbolData_record:
  "fst (updateSymbolData rt env rnd clk symb rs) =
     JObj [(''symbol'', JStr symb),
           (''timestamp'', JStr (now_iso clk)),
           (''market'', fetchMarketData rt env rnd clk symb),
           (''technical'', fetchTechnicalData env),
           (''sentiment'', fetchSentimentData env),
           (''lastUpdated'', JNum (of_int (now_ms clk)))]"
  by (simp add: updateSymbolData_def Let_def)

lemma updateSymbolData_state:
  "snd (updateSymbolData rt env rnd clk symb rs) =
     snd (redis_publish rt ''market_updates''
            (bus_message_json symb (fst (updateSymbolData rt env rnd clk symb rs)))
            (snd (redis_set rt (now_ms clk) (cache_key symb)
                    (fst (updateSymbolData rt env rnd clk symb rs)) (Some 300) rs)))"
  by (simp add: updateSymbolData_def Let_def)

text \<open>
  A symbol that names a property of \<open>Object.prototype\<close> has no numeric base price: the price
  fields of its sample are \<open>NaN\<close>, while \<open>change_percent\<close> and \<open>volume\<close> do not depend on the base
  price.
\<close>

lemma prototype_symbol_has_no_price:
  "close_price (generateMockMarketData rt rnd clk ''toString'') = None
   \<and> open_price (generateMockMarketData rt rnd clk ''toString'') = None
   \<and> change (generateMockMarketData rt rnd clk ''toString'') = None"
  by (simp add: generateMockMarketData_def Let_def basePriceOf_def basePrices_def
      objectPrototypeProperties_def)



text \<open>
  C10 (the market facet is never absent). For every symbol, every outcome of the three
  upstream requests and every state of the cache store, the \<open>market\<close> property of the record
  that \<open>updateSymbolData\<close> returns is the body of the market response when the request
  resolves with a truthy body, and the synthetic fallback sample when it rejects or
  resolves without one; either way it is truthy, hence neither absent nor \<open>null\<close>. The
  \<open>technical\<close> and \<open>sentiment\<close> properties are the body of their response, or \<open>null\<close> when the
  request rejects or has no body. That same record is the value passed to the cache \<open>set\<close>
  and, inside the bus message, to \<open>publish\<close>.
\<close>

theorem market_facet_never_absent:
  "jprop (fst (updateSymbolData rt env rnd clk symb rs)) ''market''
     = Some (case market_response env of
               None \<Rightarrow> sample_json (generateMockMarketData rt rnd clk symb)
             | Some d \<Rightarrow>
                 if truthy d then d else sample_json (generateMockMarketData rt rnd clk symb))
   \<and> truthy_opt (jprop (fst (updateSymbolData rt env rnd clk symb rs)) ''market'')
   \<and> jprop (fst (updateSymbolData rt env rnd clk symb rs)) ''market'' \<noteq> Some JNull
   \<and> jprop (fst (updateSymbolData rt env rnd clk symb rs)) ''market'' \<noteq> None
   \<and> jprop (fst (updateSymbolData rt env rnd clk symb rs)) ''technical''
       = Some (case technical_response env of
                 None \<Rightarrow> JNull | Some d \<Rightarrow> if truthy d then d else JNull)
   \<and> jprop (fst (updateSymbolData rt env rnd clk symb rs)) ''sentiment''
       = Some (case sentiment_response env of
                 None \<Rightarrow> JNull | Some d \<Rightarrow> if truthy d then d else JNull)
   \<and> snd (updateSymbolData rt env rnd clk symb rs) =
       snd (redis_publish rt ''market_updates''
            (bus_message_json symb (fst (updateSymbolData rt env rnd clk symb rs)))
            (snd (redis_set rt (now_ms clk) (cache_key symb)
                    (fst (updateSymbolData rt env rnd clk symb rs)) (Some 300) rs)))"
proof -
  have m: "jprop (fst (updateSymbolData rt env rnd clk symb rs)) ''market''
             = Some (fetchMarketData rt env rnd clk symb)"
    by (simp add: updateSymbolData_record)
  have t: "truthy (fetchMarketData rt env rnd clk symb)" by (rule fetchMarketData_truthy)
  have n: "fetchMarketData rt env rnd clk symb \<noteq> JNull" using t by auto
  have te: "jprop (fst (updateSymbolData rt env rnd clk symb rs)) ''technical''
       = Some (case technical_response env of
                 None \<Rightarrow> JNull | Some d \<Rightarrow> if truthy d then d else JNull)"
    by (simp add: updateSymbolData_record fetchTechnicalData_def)
  have se: "jprop (fst (updateSymbolData rt env rnd clk symb rs)) ''sentiment''
       = Some (case sentiment_response env of
                 None \<Rightarrow> JNull | Some d \<Rightarrow> if truthy d then d else JNull)"
    by (simp add: updateSymbolData_record fetchSentimentData_def)
  show ?thesis
    using t n updateSymbolData_state [of rt env rnd clk symb rs]
    by (simp only: m te se fetchMarketData_cases [symmetric] truthy_opt.simps
        option.inject option.distinct simp_thms)
qed

text \<open>
  C5 (cache-aside read). For every symbol: when the cache \<open>get\<close> returns a record (a truthy
  value) whose \<open>lastUpdated\<close> is a number \<open>t\<close> with \<open>now - t < 30000\<close> milliseconds,
  \<open>getLatestData\<close> returns that record unchanged and does nothing else; when the \<open>get\<close>
  returns \<open>null\<close> (no cached record), or the record's age \<open>now - t\<close> is \<open>30000\<close> or more,
  \<open>getLatestData\<close> performs \<open>updateSymbolData\<close> and returns its result.
\<close>

theorem cache_aside_read:
  "(truthy (fst (redis_get rt (now_ms clk) (cache_key symb) rs))
      \<and> jprop (fst (redis_get rt (now_ms clk) (cache_key symb) rs)) ''lastUpdated'' = Some (JNum t)
      \<and> of_int (now_ms clk) - t < 30000
    \<longrightarrow> getLatestData rt env rnd clk symb rs = redis_get rt (now_ms clk) (cache_key symb) rs)
   \<and> (fst (redis_get rt (now_ms clk) (cache_key symb) rs) = JNull
        \<or> (jprop (fst (redis_get rt (now_ms clk) (cache_key symb) rs)) ''lastUpdated'' = Some (JNum t)
            \<and> 30000 \<le> of_int (now_ms clk) - t)
    \<longrightarrow> getLatestData rt env rnd clk symb rs
          = updateSymbolData rt env rnd clk symb
              (snd (redis_get rt (now_ms clk) (cache_key symb) rs)))"
  by (auto simp add: getLatestData_def is_fresh_def split: prod.splits)

text \<open>
  C5, witness: a record cached at the time of the first read (returned as it is) and read
  again 40 seconds later (refreshed).
\<close>

theorem cache_aside_read_witness:
  "truthy (fst (redis_get table_runtime (now_ms clk0) (cache_key ''NIFTY'') rs_cached))
   \<and> jprop (fst (redis_get table_runtime (now_ms clk0) (cache_key ''NIFTY'') rs_cached))
        ''lastUpdated'' = Some (JNum 1700000000000)
   \<and> real_of_int (now_ms clk0) - 1700000000000 < 30000
   \<and> getLatestData table_runtime all_failing zero_draws clk0 ''NIFTY'' rs_cached
       = (full_record, issue rs_cached)
   \<and> 30000 \<le> real_of_int (now_ms clk_later) - 1700000000000
   \<and> getLatestData table_runtime all_failing zero_draws clk_later ''NIFTY'' rs_cached
       = updateSymbolData table_runtime all_failing zero_draws clk_later ''NIFTY''
           (issue rs_cached)"
  using cache_aside_read [where rt = table_runtime and clk = clk0 and symb = "''NIFTY''"
      and rs = rs_cached and t = 1700000000000 and env = all_failing and rnd = zero_draws]
    cache_aside_read [where rt = table_runtime and clk = clk_later and symb = "''NIFTY''"
      and rs = rs_cached and t = 1700000000000 and env = all_failing and rnd = zero_draws]
  by (simp add: redis_get_rs_cached clk0_def clk_later_def) (simp add: full_record_def)

section \<open>Subscribing and the snapshot request\<close>

lemma handleSubscription_clients:
  "connectedClients (handleSubscription clk sock (PArr syms) s) c =
     (if c = sock
      then map_option
             (\<lambda>ci. ci\<lparr>clientSubscriptions := clientSubscriptions ci \<union> set syms,
                       lastActivity := now_ms clk\<rparr>)
             (connectedClients s sock)
      else connectedClients s c)"
  by (auto simp: handleSubscription_def socket_emit_simps touch_simps
      fold_subscribe_clients split: option.splits)

lemma fold_join_simps:
  "rooms (fold (\<lambda>symb. socket_join sock (room symb)) syms s) r =
     (if r \<in> room ` set syms then insert sock (rooms s r) else rooms s r)"
  "inbox (fold (\<lambda>symb. socket_join sock (room symb)) syms s) = inbox s"
  "connectedClients (fold (\<lambda>symb. socket_join sock (room symb)) syms s) = connectedClients s"
  "subscriptions (fold (\<lambda>symb. socket_join sock (room symb)) syms s) = subscriptions s"
  by (induction syms arbitrary: s) (auto simp: socket_join_def)

lemma on_subscribe_simps:
  "rooms (on_subscribe sock (PArr syms) s) r =
     (if r \<in> room ` set syms then insert sock (rooms s r) else rooms s r)"
  "connectedClients (on_subscribe sock (PArr syms) s) = connectedClients s"
  "subscriptions (on_subscribe sock (PArr syms) s) = subscriptions s"
  by (simp_all add: on_subscribe_def fold_join_simps)

lemma request_loop_registry:
  "rooms (fst (request_loop rt w sock i syms st)) = rooms (fst st)
   \<and> connectedClients (fst (request_loop rt w sock i syms st)) = connectedClients (fst st)
   \<and> subscriptions (fst (request_loop rt w sock i syms st)) = subscriptions (fst st)"
  by (induction syms arbitrary: i st) (simp_all add: socket_emit_simps split: prod.splits)

lemma request_loop_others:
  "c \<noteq> sock \<Longrightarrow> inbox (fst (request_loop rt w sock i syms st)) c = inbox (fst st) c"
  by (induction syms arbitrary: i st) (simp_all add: socket_emit_simps split: prod.splits)

lemma request_loop_inbox:
  "\<exists>ds. length ds = length syms
        \<and> inbox (fst (request_loop rt w sock i syms st)) sock
            = inbox (fst st) sock @ map (\<lambda>(symb, d). MarketData symb d None) (zip syms ds)"
proof (induction syms arbitrary: i st)
  case Nil
  show ?case by simp
next
  case (Cons a syms)
  obtain dat rs' where g: "getLatestData rt (w_upstream (w i)) (w_draws (w i)) (w_clock (w i)) a (snd st) = (dat, rs')"
    by (cases "getLatestData rt (w_upstream (w i)) (w_draws (w i)) (w_clock (w i)) a (snd st)")
  from Cons.IH [of "Suc i" "(socket_emit sock (MarketData a dat None) (fst st), rs')"]
  obtain ds where ds: "length ds = length syms"
    "inbox (fst (request_loop rt w sock (Suc i) syms
        (socket_emit sock (MarketData a dat None) (fst st), rs'))) sock
       = inbox (fst st) sock @ [MarketData a dat None]
           @ map (\<lambda>(symb, d). MarketData symb d None) (zip syms ds)"
    by (auto simp: socket_emit_simps)
  show ?case
    by (rule exI [of _ "dat # ds"]) (simp add: g ds)
qed

lemma request_single:
  "on_request_initial_data rt w sock (PArr [symb]) (s, rs) =
     (socket_emit sock
        (MarketData symb
           (fst (getLatestData rt (w_upstream (w 0)) (w_draws (w 0)) (w_clock (w 0)) symb rs))
           None) s,
      snd (getLatestData rt (w_upstream (w 0)) (w_draws (w 0)) (w_clock (w 0)) symb rs))"
  by (simp add: on_request_initial_data_def split: prod.splits)


lemma request_loop_shift:
  "request_loop rt w sock (Suc i) syms st = request_loop rt (\<lambda>j. w (Suc j)) sock i syms st"
  by (induction syms arbitrary: i st) (simp_all split: prod.splits)

lemma request_cons:
  "on_request_initial_data rt w sock (PArr (symb # syms)) st =
     on_request_initial_data rt (\<lambda>j. w (Suc j)) sock (PArr syms)
       (on_request_initial_data rt w sock (PArr [symb]) st)"
  by (simp add: on_request_initial_data_def request_loop_shift split: prod.splits)

lemma getLatestData_rs_cached:
  "getLatestData table_runtime all_failing zero_draws clk0 ''NIFTY'' rs_cached
     = (full_record, issue rs_cached)"
  by (simp add: getLatestData_def redis_get_rs_cached clk0_def is_fresh_def)
    (simp add: full_record_def)

text \<open>
  C3, counterexample. The claim says that subscribe pushes a current snapshot for each
  newly added symbol. After \<open>c1\<close> connects and subscribes to \<open>[NIFTY]\<close>, \<open>NIFTY\<close> is in its
  interest set and the events delivered to it are the handshake and the confirmation: no
  \<open>market-data\<close> event. The handler of the entry point delivers nothing at all.
\<close>

theorem subscribe_pushes_no_snapshot:
  "inbox s_subscribed ''c1'' =
     [ConnectionEstablished ''c1'' (now_iso clk0) availableChannels,
      SubscriptionConfirmed [''NIFTY''] (now_iso clk0)]
   \<and> filter is_market_data (inbox s_subscribed ''c1'') = []
   \<and> ''NIFTY'' \<in> interestSet s_subscribed ''c1''
   \<and> inbox (on_subscribe ''c1'' (PArr [''NIFTY'']) s_connected) ''c1'' = inbox s_connected ''c1''"
  by (simp add: s_subscribed_interest on_subscribe_inbox)
    (simp add: s_subscribed_def handleSubscription_inbox s_connected_client s_connected_inbox)

text \<open>
  C3, as amended. For every registered connection \<open>C\<close> and every list of symbols,
  \<open>handleSubscription\<close> adds the symbols to the interest set of \<open>C\<close> (and stamps its
  \<open>lastActivity\<close>), adds \<open>C\<close> to the index entry of each symbol (creating the entry when
  there is none), joins \<open>C\<close> to the room of each symbol, and delivers exactly one event, the
  \<open>subscription-confirmed\<close> carrying the list, to \<open>C\<close>; no other client record, index entry,
  room or inbox changes. The subscribe handler of the entry point joins the same rooms and
  changes nothing else. Neither pushes a snapshot. A snapshot is what the separate
  \<open>request-initial-data\<close> handler sends: for a list \<open>[S]\<close>, one \<open>market-data\<close> event carrying
  the result of \<open>getLatestData S\<close>; for a longer list, the same for its first symbol and
  then for the rest, so one event for each symbol in order, to the requesting socket
  only, with rooms and registries unchanged.
\<close>

theorem subscribe_confirms_only:
  assumes "connectedClients s C = Some ci"
  shows "connectedClients (handleSubscription clk C (PArr syms) s) c =
           (if c = C
            then Some (ci\<lparr>clientSubscriptions := clientSubscriptions ci \<union> set syms,
                           lastActivity := now_ms clk\<rparr>)
            else connectedClients s c)
       \<and> interestSet (handleSubscription clk C (PArr syms) s) C = interestSet s C \<union> set syms
       \<and> subscriptions (handleSubscription clk C (PArr syms) s) S =
           (if S \<in> set syms
            then Some (insert C (case subscriptions s S of None \<Rightarrow> {} | Some ids \<Rightarrow> ids))
            else subscriptions s S)
       \<and> rooms (handleSubscription clk C (PArr syms) s) r =
           (if r \<in> room ` set syms then insert C (rooms s r) else rooms s r)
       \<and> inbox (handleSubscription clk C (PArr syms) s) c =
           (if c = C then inbox s C @ [SubscriptionConfirmed syms (now_iso clk)] else inbox s c)
       \<and> rooms (on_subscribe C (PArr syms) s) r =
           (if r \<in> room ` set syms then insert C (rooms s r) else rooms s r)
       \<and> inbox (on_subscribe C (PArr syms) s) = inbox s
       \<and> connectedClients (on_subscribe C (PArr syms) s) = connectedClients s
       \<and> subscriptions (on_subscribe C (PArr syms) s) = subscriptions s
       \<and> on_request_initial_data rt w C (PArr [S]) (s, rs) =
           (socket_emit C
              (MarketData S
                 (fst (getLatestData rt (w_upstream (w 0)) (w_draws (w 0)) (w_clock (w 0)) S rs))
                 None) s,
            snd (getLatestData rt (w_upstream (w 0)) (w_draws (w 0)) (w_clock (w 0)) S rs))
       \<and> on_request_initial_data rt w C (PArr (S # syms)) (s, rs) =
           on_request_initial_data rt (\<lambda>j. w (Suc j)) C (PArr syms)
             (on_request_initial_data rt w C (PArr [S]) (s, rs))
       \<and> (\<exists>ds. length ds = length syms
              \<and> inbox (fst (on_request_initial_data rt w C (PArr syms) (s, rs))) C
                  = inbox s C @ map (\<lambda>(symb, d). MarketData symb d None) (zip syms ds))
       \<and> (c \<noteq> C \<longrightarrow> inbox (fst (on_request_initial_data rt w C (PArr syms) (s, rs))) c = inbox s c)
       \<and> rooms (fst (on_request_initial_data rt w C (PArr syms) (s, rs))) = rooms s
       \<and> connectedClients (fst (on_request_initial_data rt w C (PArr syms) (s, rs)))
           = connectedClients s
       \<and> subscriptions (fst (on_request_initial_data rt w C (PArr syms) (s, rs)))
           = subscriptions s"
proof -
  have a: "connectedClients s C \<noteq> None" using assms by simp
  have q: "\<exists>ds. length ds = length syms
              \<and> inbox (fst (on_request_initial_data rt w C (PArr syms) (s, rs))) C
                  = inbox s C @ map (\<lambda>(symb, d). MarketData symb d None) (zip syms ds)"
    using request_loop_inbox [of syms rt w C 0 "(s, rs)"]
    by (simp add: on_request_initial_data_def)
  have o: "c \<noteq> C \<longrightarrow> inbox (fst (on_request_initial_data rt w C (PArr syms) (s, rs))) c = inbox s c"
    using request_loop_others [of c C rt w 0 syms "(s, rs)"]
    by (simp add: on_request_initial_data_def)
  have g: "rooms (fst (on_request_initial_data rt w C (PArr syms) (s, rs))) = rooms s
     \<and> connectedClients (fst (on_request_initial_data rt w C (PArr syms) (s, rs)))
           = connectedClients s
     \<and> subscriptions (fst (on_request_initial_data rt w C (PArr syms) (s, rs)))
           = subscriptions s"
    using request_loop_registry [of rt w C 0 syms "(s, rs)"]
    by (simp add: on_request_initial_data_def)
  have k: "on_request_initial_data rt w C (PArr (S # syms)) (s, rs) =
           on_request_initial_data rt (\<lambda>j. w (Suc j)) C (PArr syms)
             (on_request_initial_data rt w C (PArr [S]) (s, rs))"
    by (rule request_cons)
  have e: "on_request_initial_data rt w C (PArr [S]) (s, rs) =
           (socket_emit C
              (MarketData S
                 (fst (getLatestData rt (w_upstream (w 0)) (w_draws (w 0)) (w_clock (w 0)) S rs))
                 None) s,
            snd (getLatestData rt (w_upstream (w 0)) (w_draws (w 0)) (w_clock (w 0)) S rs))"
    by (rule request_single)
  have h: "connectedClients (handleSubscription clk C (PArr syms) s) c =
           (if c = C
            then Some (ci\<lparr>clientSubscriptions := clientSubscriptions ci \<union> set syms,
                           lastActivity := now_ms clk\<rparr>)
            else connectedClients s c)
       \<and> interestSet (handleSubscription clk C (PArr syms) s) C = interestSet s C \<union> set syms
       \<and> subscriptions (handleSubscription clk C (PArr syms) s) S =
           (if S \<in> set syms
            then Some (insert C (case subscriptions s S of None \<Rightarrow> {} | Some ids \<Rightarrow> ids))
            else subscriptions s S)
       \<and> rooms (handleSubscription clk C (PArr syms) s) r =
           (if r \<in> room ` set syms then insert C (rooms s r) else rooms s r)
       \<and> inbox (handleSubscription clk C (PArr syms) s) c =
           (if c = C then inbox s C @ [SubscriptionConfirmed syms (now_iso clk)] else inbox s c)
       \<and> rooms (on_subscribe C (PArr syms) s) r =
           (if r \<in> room ` set syms then insert C (rooms s r) else rooms s r)
       \<and> inbox (on_subscribe C (PArr syms) s) = inbox s
       \<and> connectedClients (on_subscribe C (PArr syms) s) = connectedClients s
       \<and> subscriptions (on_subscribe C (PArr syms) s) = subscriptions s"
    by (simp add: handleSubscription_clients handleSubscription_interest
        handleSubscription_index handleSubscription_rooms handleSubscription_inbox
        on_subscribe_simps on_subscribe_inbox assms)
  show ?thesis
    using h e k q o g by blast
qed

text \<open>
  C3, witness: \<open>c1\<close> subscribing to \<open>[NIFTY]\<close>, and \<open>c1\<close> requesting the snapshot of \<open>[NIFTY]\<close>
  from a cache that holds a fresh record.
\<close>

theorem subscribe_confirms_only_witness:
  "connectedClients s_connected ''c1'' \<noteq> None
   \<and> interestSet s_subscribed ''c1'' = {''NIFTY''}
   \<and> subscriptions s_subscribed ''NIFTY'' = Some {''c1''}
   \<and> rooms s_subscribed (room ''NIFTY'') = {''c1''}
   \<and> inbox s_subscribed ''c1''
       = inbox s_connected ''c1'' @ [SubscriptionConfirmed [''NIFTY''] (now_iso clk0)]
   \<and> inbox s_subscribed ''c2'' = inbox s_connected ''c2''
   \<and> rooms (on_subscribe ''c1'' (PArr [''NIFTY'']) s_connected) (room ''NIFTY'') = {''c1''}
   \<and> inbox (on_subscribe ''c1'' (PArr [''NIFTY'']) s_connected) = inbox s_connected
   \<and> inbox (fst (on_request_initial_data table_runtime world0 ''c1'' (PArr [''NIFTY''])
               (s_connected, rs_cached))) ''c1''
       = inbox s_connected ''c1'' @ [MarketData ''NIFTY'' full_record None]"
proof -
  note t1 = subscribe_confirms_only [OF s_connected_client, where clk = clk0
      and syms = "[''NIFTY'']" and c = "''c1''" and S = "''NIFTY''" and r = "room ''NIFTY''"
      and rt = table_runtime and w = world0 and rs = rs_cached]
  note t2 = subscribe_confirms_only [OF s_connected_client, where clk = clk0
      and syms = "[''NIFTY'']" and c = "''c2''" and S = "''NIFTY''" and r = "room ''NIFTY''"
      and rt = table_runtime and w = world0 and rs = rs_cached]
  show ?thesis
    using t1 t2
    by (simp add: s_connected_client s_connected_interest s_connected_index s_connected_rooms
        s_subscribed_def world0_def getLatestData_rs_cached socket_emit_simps)
qed

end
